theory Spec2Isabelle
  imports Main "HOL-Library.Sublist"
begin

section \<open>InfoShield AI: the verification pipeline\<close>

text \<open>
  A shallow embedding of the rule-based core of InfoShield AI: the guardrail
  validator (\<^verbatim>\<open>tools/guardrails.py\<close>), the query analyzer (\<^verbatim>\<open>tools/analyzer.py\<close>),
  the credibility scorer (\<^verbatim>\<open>tools/credibility.py\<close>), the human-review queue
  (\<^verbatim>\<open>tools/human_review.py\<close>, \<^verbatim>\<open>models.py\<close>) and the post-processing of the two
  runners (\<^verbatim>\<open>agents/runner.py\<close>, \<^verbatim>\<open>agent.py\<close>).

  Python strings are modelled as \<^typ>\<open>string\<close>, one \<^typ>\<open>char\<close> per code point: the
  model covers the strings of code points below 256 (Latin-1), and on them the
  functions and character classes below are those of Python 3. Python's
  \<^verbatim>\<open>k in s\<close> on strings is \<^const>\<open>sublist\<close>. Python integers are \<^typ>\<open>int\<close>.
\<close>

subsection \<open>Strings\<close>

text \<open>The letters of the classes \<^verbatim>\<open>[A-Z]\<close> and \<^verbatim>\<open>[a-z]\<close>, and the digits.\<close>

definition upper_letters :: string where
  "upper_letters = ''ABCDEFGHIJKLMNOPQRSTUVWXYZ''"

definition lower_letters :: string where
  "lower_letters = ''abcdefghijklmnopqrstuvwxyz''"

definition digits :: string where
  "digits = ''0123456789''"

text \<open>The cased letters above 127: \<^verbatim>\<open>0xC0\<close>..\<^verbatim>\<open>0xDE\<close> without the multiplication
  sign \<^verbatim>\<open>0xD7\<close>, and \<^verbatim>\<open>0xE0\<close>..\<^verbatim>\<open>0xFE\<close> without the division sign \<^verbatim>\<open>0xF7\<close>.\<close>

definition latin1_upper :: string where
  "latin1_upper =
     [CHR 0xC0, CHR 0xC1, CHR 0xC2, CHR 0xC3, CHR 0xC4, CHR 0xC5, CHR 0xC6,
      CHR 0xC7, CHR 0xC8, CHR 0xC9, CHR 0xCA, CHR 0xCB, CHR 0xCC, CHR 0xCD,
      CHR 0xCE, CHR 0xCF, CHR 0xD0, CHR 0xD1, CHR 0xD2, CHR 0xD3, CHR 0xD4,
      CHR 0xD5, CHR 0xD6, CHR 0xD8, CHR 0xD9, CHR 0xDA, CHR 0xDB, CHR 0xDC,
      CHR 0xDD, CHR 0xDE]"

definition latin1_lower :: string where
  "latin1_lower =
     [CHR 0xE0, CHR 0xE1, CHR 0xE2, CHR 0xE3, CHR 0xE4, CHR 0xE5, CHR 0xE6,
      CHR 0xE7, CHR 0xE8, CHR 0xE9, CHR 0xEA, CHR 0xEB, CHR 0xEC, CHR 0xED,
      CHR 0xEE, CHR 0xEF, CHR 0xF0, CHR 0xF1, CHR 0xF2, CHR 0xF3, CHR 0xF4,
      CHR 0xF5, CHR 0xF6, CHR 0xF8, CHR 0xF9, CHR 0xFA, CHR 0xFB, CHR 0xFC,
      CHR 0xFD, CHR 0xFE]"

text \<open>\<^verbatim>\<open>str.lower\<close> on one character.\<close>

definition lower_char :: "char \<Rightarrow> char" where
  "lower_char c =
     (case map_of (zip (upper_letters @ latin1_upper) (lower_letters @ latin1_lower)) c of
        None \<Rightarrow> c
      | Some l \<Rightarrow> l)"

definition lower :: "string \<Rightarrow> string" where
  "lower s = map lower_char s"

text \<open>\<^verbatim>\<open>str.isspace\<close>, which is also the class \<^verbatim>\<open>\s\<close>: tab, newline, vertical tab,
  form feed, carriage return, the four separators \<^verbatim>\<open>0x1C\<close>..\<^verbatim>\<open>0x1F\<close>, the blank, the
  next-line control \<^verbatim>\<open>0x85\<close> and the no-break space \<^verbatim>\<open>0xA0\<close>.\<close>

definition whitespace :: string where
  "whitespace = [CHR 0x09, CHR 0x0A, CHR 0x0B, CHR 0x0C, CHR 0x0D,
                 CHR 0x1C, CHR 0x1D, CHR 0x1E, CHR 0x1F, CHR '' '', CHR 0x85, CHR 0xA0]"

definition is_space :: "char \<Rightarrow> bool" where
  "is_space c = (c \<in> set whitespace)"

text \<open>The class \<^verbatim>\<open>\d\<close>, and the classes \<^verbatim>\<open>[A-Z]\<close> and \<^verbatim>\<open>[a-z]\<close>.\<close>

definition is_digit :: "char \<Rightarrow> bool" where
  "is_digit c = (c \<in> set digits)"

definition is_upper :: "char \<Rightarrow> bool" where
  "is_upper c = (c \<in> set upper_letters)"

definition is_lower :: "char \<Rightarrow> bool" where
  "is_lower c = (c \<in> set lower_letters)"

text \<open>The class \<^verbatim>\<open>\w\<close>: the underscore and the characters for which \<^verbatim>\<open>str.isalnum\<close>
  holds. Above 127 these are the cased letters, the ordinal indicators, the micro sign,
  the sharp s, the y with diaeresis, the superscript digits and the three fractions.\<close>

definition latin1_word :: string where
  "latin1_word =
     [CHR 0xAA, CHR 0xB2, CHR 0xB3, CHR 0xB5, CHR 0xB9, CHR 0xBA, CHR 0xBC,
      CHR 0xBD, CHR 0xBE, CHR 0xDF, CHR 0xFF]
     @ latin1_upper @ latin1_lower"

definition is_word :: "char \<Rightarrow> bool" where
  "is_word c =
     (is_lower c \<or> is_upper c \<or> is_digit c \<or> c = CHR ''_'' \<or> c \<in> set latin1_word)"

text \<open>For the code equations of these functions on the bits of a character (least
  significant first): the five low bits of the letters \<^verbatim>\<open>0x41\<close>..\<^verbatim>\<open>0x5A\<close> and
  \<^verbatim>\<open>0x61\<close>..\<^verbatim>\<open>0x7A\<close> are 1 to 26.\<close>

definition letter_bits :: "bool \<Rightarrow> bool \<Rightarrow> bool \<Rightarrow> bool \<Rightarrow> bool \<Rightarrow> bool" where
  "letter_bits b0 b1 b2 b3 b4 =
     ((b0 \<or> b1 \<or> b2 \<or> b3 \<or> b4) \<and> \<not> (b4 \<and> b3 \<and> (b2 \<or> (b1 \<and> b0))))"

text \<open>\<^verbatim>\<open>s.strip()\<close> and \<^verbatim>\<open>s.strip(chars)\<close>.\<close>

definition strip_with :: "(char \<Rightarrow> bool) \<Rightarrow> string \<Rightarrow> string" where
  "strip_with P s = rev (dropWhile P (rev (dropWhile P s)))"

definition strip :: "string \<Rightarrow> string" where
  "strip s = strip_with is_space s"

text \<open>\<^verbatim>\<open>s.split()\<close>: the maximal runs of non-whitespace characters.\<close>

fun split_ws :: "string \<Rightarrow> string \<Rightarrow> string list" where
  "split_ws cur [] = (if cur = [] then [] else [cur])"
| "split_ws cur (c # cs) =
     (if is_space c then (if cur = [] then split_ws [] cs else cur # split_ws [] cs)
      else split_ws (cur @ [c]) cs)"

definition split :: "string \<Rightarrow> string list" where
  "split s = split_ws [] s"

text \<open>\<^verbatim>\<open>sep.join(xs)\<close>.\<close>

fun join :: "string \<Rightarrow> string list \<Rightarrow> string" where
  "join sep [] = []"
| "join sep [x] = x"
| "join sep (x # y # ys) = x @ sep @ join sep (y # ys)"

text \<open>\<^verbatim>\<open>s.count(c)\<close> for a one-character needle.\<close>

definition count_char :: "char \<Rightarrow> string \<Rightarrow> nat" where
  "count_char c s = length (filter (\<lambda>x. x = c) s)"

text \<open>\<^verbatim>\<open>str(n)\<close> for an integer, and \<^verbatim>\<open>int(s)\<close> for a string of digits.\<close>

definition digit_char :: "nat \<Rightarrow> char" where
  "digit_char d = digits ! d"

fun str_nat :: "nat \<Rightarrow> string" where
  "str_nat n = (if n < 10 then [digit_char n] else str_nat (n div 10) @ [digit_char (n mod 10)])"

definition str_int :: "int \<Rightarrow> string" where
  "str_int i = (if i < 0 then CHR ''-'' # str_nat (nat (- i)) else str_nat (nat i))"

definition digit_value :: "char \<Rightarrow> int" where
  "digit_value c = int (length (takeWhile (\<lambda>d. d \<noteq> c) digits))"

definition int_of_digits :: "string \<Rightarrow> int" where
  "int_of_digits s = foldl (\<lambda>acc c. 10 * acc + digit_value c) 0 s"

text \<open>\<^verbatim>\<open>any(kw in s for kw in kws)\<close>.\<close>

definition any_in :: "string list \<Rightarrow> string \<Rightarrow> bool" where
  "any_in kws s = list_ex (\<lambda>kw. sublist kw s) kws"

declare str_nat.simps [simp del]

subsection \<open>Regular expressions\<close>

text \<open>
  The fragment of Python's \<^verbatim>\<open>re\<close> syntax that the source uses. A pattern is run
  at a position of the subject and yields the list of its possible outcomes in the
  order in which Python's backtracking matcher tries them (alternatives left to
  right, repetitions greedy), so the head of the list is the match Python reports.
  An outcome is the end position and the span of the capturing group read by
  \<^verbatim>\<open>match.group(1)\<close>.
\<close>

datatype rx =
    Lit string
  | AnyChar
  | Digit
  | Space
  | OneOf string
  | Upper
  | Lower
  | Cat rx rx
  | Alt rx rx
  | Opt rx
  | Star rx
  | Plus rx
  | Grp rx
  | Bol
  | Eol
  | Wb

type_synonym mstate = "nat \<times> (nat \<times> nat) option"

definition cls :: "(char \<Rightarrow> bool) \<Rightarrow> string \<Rightarrow> mstate \<Rightarrow> mstate list" where
  "cls P s st =
     (let i = fst st in if i < length s \<and> P (s ! i) then [(i + 1, snd st)] else [])"

definition lit_at :: "string \<Rightarrow> string \<Rightarrow> nat \<Rightarrow> bool" where
  "lit_at cs s i = prefix cs (drop i s)"

text \<open>\<^verbatim>\<open>\b\<close>: exactly one of the characters before and at the position is a word
  character; outside the subject there is none.\<close>

definition word_at :: "string \<Rightarrow> nat \<Rightarrow> bool" where
  "word_at s i = (i < length s \<and> is_word (s ! i))"

definition boundary_at :: "string \<Rightarrow> nat \<Rightarrow> bool" where
  "boundary_at s i = ((i > 0 \<and> word_at s (i - 1)) \<noteq> word_at s i)"

text \<open>\<^verbatim>\<open>$\<close> without \<^verbatim>\<open>re.MULTILINE\<close>: at the end, or before a final newline.\<close>

definition eol_at :: "string \<Rightarrow> nat \<Rightarrow> bool" where
  "eol_at s i = (i = length s \<or> (Suc i = length s \<and> s ! i = CHR 0x0A))"

text \<open>Greedy repetition: one more round first, then stop. A round that consumes
  nothing is not repeated (the bodies repeated in the source always consume).\<close>

fun star_run :: "(mstate \<Rightarrow> mstate list) \<Rightarrow> nat \<Rightarrow> mstate \<Rightarrow> mstate list" where
  "star_run f 0 st = [st]"
| "star_run f (Suc k) st =
     concat (map (\<lambda>st'. if fst st < fst st' then star_run f k st' else []) (f st)) @ [st]"

primrec rx_run :: "rx \<Rightarrow> string \<Rightarrow> mstate \<Rightarrow> mstate list" where
  "rx_run (Lit cs) s st =
     (if lit_at cs s (fst st) then [(fst st + length cs, snd st)] else [])"
| "rx_run AnyChar s st = cls (\<lambda>c. c \<noteq> CHR 0x0A) s st"
| "rx_run Digit s st = cls is_digit s st"
| "rx_run Space s st = cls is_space s st"
| "rx_run (OneOf cs) s st = cls (\<lambda>c. c \<in> set cs) s st"
| "rx_run Upper s st = cls is_upper s st"
| "rx_run Lower s st = cls is_lower s st"
| "rx_run (Cat a b) s st = concat (map (rx_run b s) (rx_run a s st))"
| "rx_run (Alt a b) s st = rx_run a s st @ rx_run b s st"
| "rx_run (Opt a) s st = rx_run a s st @ [st]"
| "rx_run (Star a) s st = star_run (rx_run a s) (length s) st"
| "rx_run (Plus a) s st = concat (map (star_run (rx_run a s) (length s)) (rx_run a s st))"
| "rx_run (Grp a) s st = map (\<lambda>st'. (fst st', Some (fst st, fst st'))) (rx_run a s st)"
| "rx_run Bol s st = (if fst st = 0 then [st] else [])"
| "rx_run Eol s st = (if eol_at s (fst st) then [st] else [])"
| "rx_run Wb s st = (if boundary_at s (fst st) then [st] else [])"

text \<open>\<^verbatim>\<open>re.IGNORECASE\<close>: the literals and sets of the pattern and the subject are
  compared in lower case, and \<^verbatim>\<open>[A-Z]\<close> holds what \<^verbatim>\<open>[a-z]\<close> holds.\<close>

primrec fold_case :: "rx \<Rightarrow> rx" where
  "fold_case (Lit cs) = Lit (lower cs)"
| "fold_case AnyChar = AnyChar"
| "fold_case Digit = Digit"
| "fold_case Space = Space"
| "fold_case (OneOf cs) = OneOf (lower cs)"
| "fold_case Upper = Lower"
| "fold_case Lower = Lower"
| "fold_case (Cat a b) = Cat (fold_case a) (fold_case b)"
| "fold_case (Alt a b) = Alt (fold_case a) (fold_case b)"
| "fold_case (Opt a) = Opt (fold_case a)"
| "fold_case (Star a) = Star (fold_case a)"
| "fold_case (Plus a) = Plus (fold_case a)"
| "fold_case (Grp a) = Grp (fold_case a)"
| "fold_case Bol = Bol"
| "fold_case Eol = Eol"
| "fold_case Wb = Wb"

text \<open>\<^verbatim>\<open>re.search\<close>: the first start position, from the left, at which the pattern
  has an outcome, with the first outcome there.\<close>

fun search_from :: "rx \<Rightarrow> string \<Rightarrow> nat \<Rightarrow> nat \<Rightarrow> mstate option" where
  "search_from r s i 0 = None"
| "search_from r s i (Suc k) =
     (case rx_run r s (i, None) of
        [] \<Rightarrow> search_from r s (Suc i) k
      | st # _ \<Rightarrow> Some st)"

definition re_search :: "rx \<Rightarrow> bool \<Rightarrow> string \<Rightarrow> mstate option" where
  "re_search r ic s =
     (if ic then search_from (fold_case r) (lower s) 0 (Suc (length s))
      else search_from r s 0 (Suc (length s)))"

definition re_matches :: "bool \<Rightarrow> string \<Rightarrow> rx \<Rightarrow> bool" where
  "re_matches ic s r = (re_search r ic s \<noteq> None)"

text \<open>\<^verbatim>\<open>match.group(1)\<close>; \<^verbatim>\<open>None\<close> when the group took no part in the match.\<close>

definition group1 :: "string \<Rightarrow> mstate \<Rightarrow> string option" where
  "group1 s st = (case snd st of None \<Rightarrow> None | Some (a, b) \<Rightarrow> Some (take (b - a) (drop a s)))"

text \<open>Writing patterns: a sequence, and a choice between literals or patterns.\<close>

fun seq :: "rx list \<Rightarrow> rx" where
  "seq [] = Lit []"
| "seq [r] = r"
| "seq (r # rs) = Cat r (seq rs)"

fun alts :: "rx list \<Rightarrow> rx" where
  "alts [] = OneOf []"
| "alts [r] = r"
| "alts (r # rs) = Alt r (alts rs)"

definition words :: "string list \<Rightarrow> rx" where
  "words ws = alts (map Lit ws)"

subsection \<open>Configuration (\<^verbatim>\<open>config.py\<close>)\<close>

definition URGENCY_THRESHOLD :: int where
  "URGENCY_THRESHOLD = 8"

definition CREDIBILITY_THRESHOLD :: int where
  "CREDIBILITY_THRESHOLD = 60"

definition DISASTER_KEYWORDS :: "string list" where
  "DISASTER_KEYWORDS =
    [''flood'', ''flooding'', ''earthquake'', ''tsunami'', ''cyclone'', ''hurricane'',
     ''tornado'', ''wildfire'', ''fire'', ''landslide'', ''avalanche'', ''drought'',
     ''volcano'', ''eruption'', ''storm'', ''typhoon'', ''blizzard'', ''heatwave'',
     ''rescue'', ''emergency'', ''evacuation'', ''trapped'', ''help'', ''sos'']"

definition OFFICIAL_SOURCES :: "string list" where
  "OFFICIAL_SOURCES =
    [''un ocha'', ''red cross'', ''red crescent'', ''world meteorological organization'',
     ''international federation'', ''unicef'', ''who'',
     ''reuters'', ''ap news'', ''afp'', ''bbc'', ''cnn'', ''al jazeera'',
     ''accuweather'', ''weather.com'', ''weather underground'',
     ''ndrf'', ''ndma'', ''imd'', ''indian meteorological department'', ''india met'',
     ''sdma'', ''ddma'', ''ndtv'', ''times of india'', ''hindustan times'',
     ''fema'', ''nws'', ''national weather service'', ''noaa'', ''usgs'',
     ''national hurricane center'', ''storm prediction center'',
     ''met office'', ''environment agency'', ''bbc weather'',
     ''bureau of meteorology'', ''bom'', ''ses'', ''emergency victoria'',
     ''jma'', ''japan meteorological agency'', ''data.jma.go.jp'', ''jma.go.jp'',
     ''japan earthquake'', ''japan tsunami warning'',
     ''cma'', ''china meteorological administration'',
     ''eumetsat'', ''copernicus'', ''ecmwf'',
     ''pagasa'', ''ndrrmc'', ''philvolcs'',
     ''bmd'', ''bangladesh meteorological department'',
     ''government'', ''official'', ''ministry'', ''department'',
     ''meteorological'', ''seismological'', ''emergency management'',
     ''civil defense'', ''disaster management authority'']"

subsection \<open>Credibility scorer (\<^verbatim>\<open>tools/credibility.py\<close>)\<close>

record credibility_result =
  score :: int
  reasoning :: string
  sources_found :: "string list"
  official_sources_count :: int
  news_sources_count :: int

text \<open>The first loop of \<^verbatim>\<open>calculate_credibility\<close>: one step per entry of
  \<^const>\<open>OFFICIAL_SOURCES\<close>, on the triple
  \<^verbatim>\<open>(sources_found, official_count, news_count)\<close>.\<close>

definition official_names :: "string list" where
  "official_names = [''ndrf'', ''ndma'', ''fema'', ''government'', ''ministry'', ''official'']"

definition source_step ::
  "string \<Rightarrow> string \<Rightarrow> string list \<times> int \<times> int \<Rightarrow> string \<Rightarrow> string list \<times> int \<times> int" where
  "source_step search_lower sources_lower acc source =
     (case acc of (found, official_count, news_count) \<Rightarrow>
        if sublist source search_lower \<or> sublist source sources_lower then
          (if source \<in> set official_names
           then (found @ [source], official_count + 1, news_count)
           else (found @ [source], official_count, news_count + 1))
        else (found, official_count, news_count))"

definition scan_sources :: "string \<Rightarrow> string \<Rightarrow> string list \<times> int \<times> int" where
  "scan_sources search_lower sources_lower =
     foldl (source_step search_lower sources_lower) ([], 0, 0) OFFICIAL_SOURCES"

definition recency_keywords :: "string list" where
  "recency_keywords =
     [''today'', ''now'', ''just'', ''breaking'', ''latest'', ''current'', ''ongoing'']"

definition doubt_keywords :: "string list" where
  "doubt_keywords =
     [''unconfirmed'', ''rumor'', ''false'', ''fake'', ''hoax'', ''not true'', ''denied'']"

text \<open>The conditions of the four remaining positive rules and of the negative one.\<close>

definition recency_hit :: "string \<Rightarrow> bool" where
  "recency_hit search_lower = any_in recency_keywords search_lower"

definition location_hit :: "string \<Rightarrow> string \<Rightarrow> bool" where
  "location_hit location search_lower =
     (location \<noteq> [] \<and> lower location \<noteq> ''unknown'' \<and> sublist (lower location) search_lower)"

definition disaster_type_hit :: "string \<Rightarrow> string \<Rightarrow> bool" where
  "disaster_type_hit disaster_type search_lower =
     (disaster_type \<noteq> [] \<and> sublist (lower disaster_type) search_lower)"

definition doubt_hit :: "string \<Rightarrow> bool" where
  "doubt_hit search_lower = any_in doubt_keywords search_lower"

text \<open>Each rule adds to \<^verbatim>\<open>score\<close> and appends to \<^verbatim>\<open>reasons\<close>; the pair is threaded
  through the rules in the order of the source.\<close>

definition fire :: "bool \<Rightarrow> int \<Rightarrow> string \<Rightarrow> int \<times> string list \<Rightarrow> int \<times> string list" where
  "fire cond points reason acc =
     (if cond then (fst acc + points, snd acc @ [reason]) else acc)"

definition calculate_credibility ::
  "string \<Rightarrow> string \<Rightarrow> string \<Rightarrow> string \<Rightarrow> credibility_result" where
  "calculate_credibility search_summary sources_mentioned location disaster_type =
     (let search_lower = lower search_summary;
          sources_lower = lower sources_mentioned;
          (found, official_count, news_count) = scan_sources search_lower sources_lower;
          official_points = min 40 (official_count * 20);
          news_points = min 30 (news_count * 10);
          acc0 = (0, []);
          acc1 = fire (official_count > 0) official_points
                   (''Found '' @ str_int official_count @ '' official source(s) (+''
                      @ str_int official_points @ '')'') acc0;
          acc2 = fire (news_count > 0) news_points
                   (''Found '' @ str_int news_count @ '' news/reliable source(s) (+''
                      @ str_int news_points @ '')'') acc1;
          acc3 = fire (recency_hit search_lower) 10
                   ''Recent/current event indicators (+10)'' acc2;
          acc4 = fire (location_hit location search_lower) 10
                   (''Location '' @ [CHR 0x27] @ location @ [CHR 0x27]
                      @ '' confirmed in sources (+10)'') acc3;
          acc5 = fire (length found \<ge> 3) 10
                   ''Multiple sources corroborate (+10)'' acc4;
          acc6 = fire (disaster_type_hit disaster_type search_lower) 5
                   (''Disaster type '' @ [CHR 0x27] @ disaster_type @ [CHR 0x27]
                      @ '' confirmed (+5)'') acc5;
          acc7 = fire (doubt_hit search_lower) (- 30)
                   ''Found doubt/denial indicators (-30)'' acc6;
          final = max 0 (min 100 (fst acc7));
          reasons = (if snd acc7 = [] then [''No confirming sources found in search results'']
                     else snd acc7)
      in \<lparr> score = final,
           reasoning = join ''; '' reasons,
           sources_found = found,
           official_sources_count = official_count,
           news_sources_count = news_count \<rparr>)"

subsection \<open>Query analyzer (\<^verbatim>\<open>tools/analyzer.py\<close>)\<close>

record query_analysis =
  sentiment :: string
  urgency_score :: int
  location :: string
  disaster_type :: "string option"
  is_emergency :: bool
  keywords_found :: "string list"

definition panic_indicators :: "string list" where
  "panic_indicators = [''help'', ''sos'', ''emergency'', ''trapped'', ''dying'', ''drowning'']"

definition urgent_indicators :: "string list" where
  "urgent_indicators = [''now'', ''immediately'', ''urgent'', ''quickly'', ''asap'', ''!'']"

text \<open>\<^verbatim>\<open>[A-Z][a-z]+(?:\s+[A-Z][a-z]+)*\<close>, the capitalised phrase of the location
  patterns.\<close>

definition cap_word :: rx where
  "cap_word = Cat Upper (Plus Lower)"

definition cap_phrase :: rx where
  "cap_phrase = Cat cap_word (Star (Cat (Plus Space) cap_word))"

definition location_patterns :: "rx list" where
  "location_patterns =
     [seq [Lit ''in'', Plus Space, Grp cap_phrase],
      seq [Lit ''at'', Plus Space, Grp cap_phrase],
      seq [Lit ''near'', Plus Space, Grp cap_phrase],
      seq [Lit ''from'', Plus Space, Grp cap_phrase],
      seq [Grp cap_phrase, Plus Space,
           words [''area'', ''region'', ''city'', ''town'', ''district'']]]"

text \<open>The loop over \<^verbatim>\<open>location_patterns\<close>: the first pattern found in the query
  gives the location, and \<^verbatim>\<open>"Unknown"\<close> stays when none is found.\<close>

fun first_location :: "rx list \<Rightarrow> string \<Rightarrow> string" where
  "first_location [] query = ''Unknown''"
| "first_location (p # ps) query =
     (case re_search p False query of
        None \<Rightarrow> first_location ps query
      | Some st \<Rightarrow> (case group1 query st of None \<Rightarrow> [] | Some g \<Rightarrow> g))"

definition disaster_mapping :: "(string \<times> string list) list" where
  "disaster_mapping =
     [(''flood'', [''flood'', ''flooding'', ''water entering'']),
      (''earthquake'', [''earthquake'', ''quake'', ''tremor'', ''seismic'']),
      (''tsunami'', [''tsunami'', ''tidal wave'']),
      (''cyclone'', [''cyclone'', ''hurricane'', ''typhoon'', ''storm'']),
      (''fire'', [''fire'', ''wildfire'', ''blaze'', ''burning'']),
      (''landslide'', [''landslide'', ''mudslide'', ''debris''])]"

fun first_disaster_type :: "(string \<times> string list) list \<Rightarrow> string \<Rightarrow> string option" where
  "first_disaster_type [] query_lower = None"
| "first_disaster_type ((dtype, keywords) # rest) query_lower =
     (if any_in keywords query_lower then Some dtype
      else first_disaster_type rest query_lower)"

definition analyze_query :: "string \<Rightarrow> string option \<Rightarrow> query_analysis" where
  "analyze_query query inferred_location =
     (let query_lower = lower query;
          found = filter (\<lambda>kw. sublist kw query_lower) DISASTER_KEYWORDS;
          u0 = (3 :: int);
          u1 = (if any_in panic_indicators query_lower then u0 + 4 else u0);
          u2 = (if any_in urgent_indicators query_lower then u1 + 2 else u1);
          u3 = (if count_char CHR ''!'' query \<ge> 2 then u2 + 1 else u2);
          u4 = (if length found > 0 then u3 + int (length found) else u3);
          urgency = min 10 (max 1 u4);
          sent = (if urgency \<ge> 8 then ''panic''
                  else if urgency \<ge> 6 then ''urgent''
                  else if urgency \<ge> 4 then ''concerned''
                  else if CHR ''?'' \<in> set query \<and> length found = 0 then ''curious''
                  else ''neutral'');
          loc = (case inferred_location of
                   None \<Rightarrow> first_location location_patterns query
                 | Some l \<Rightarrow>
                     if l \<noteq> [] \<and> lower l \<noteq> ''unknown'' then l
                     else first_location location_patterns query);
          dtype = first_disaster_type disaster_mapping query_lower;
          emergency = (urgency \<ge> 8 \<or> any_in panic_indicators query_lower)
      in \<lparr> sentiment = sent,
           urgency_score = urgency,
           location = loc,
           disaster_type = dtype,
           is_emergency = emergency,
           keywords_found = found \<rparr>)"

subsection \<open>Guardrail validator (\<^verbatim>\<open>tools/guardrails.py\<close>)\<close>

text \<open>The module has a keyword list of its own, not the one of \<^verbatim>\<open>config.py\<close>.\<close>

definition guardrails_DISASTER_KEYWORDS :: "string list" where
  "guardrails_DISASTER_KEYWORDS =
    [''flood'', ''flooding'', ''earthquake'', ''quake'', ''tsunami'', ''cyclone'', ''hurricane'',
     ''typhoon'', ''tornado'', ''storm'', ''wildfire'', ''fire'', ''landslide'', ''mudslide'',
     ''avalanche'', ''drought'', ''heatwave'', ''blizzard'', ''volcanic'', ''eruption'',
     ''emergency'', ''disaster'', ''crisis'', ''evacuation'', ''rescue'', ''relief'',
     ''casualty'', ''casualties'', ''damage'', ''destroyed'', ''collapse'', ''trapped'',
     ''heavy rain'', ''severe weather'', ''warning'', ''alert'', ''red alert'', ''orange alert'',
     ''safe'', ''safety'', ''danger'', ''dangerous'', ''risk'', ''hazard'', ''threat'',
     ''is there'', ''is it true'', ''happening'', ''real'', ''fake'', ''rumor'', ''hoax'',
     ''verify'', ''confirm'', ''true or false'', ''fact check'',
     ''in india'', ''in japan'', ''in usa'', ''in california'', ''in tokyo'', ''in chennai'',
     ''in mumbai'', ''in delhi'', ''near'', ''around'']"

definition OFF_TOPIC_PATTERNS :: "rx list" where
  "OFF_TOPIC_PATTERNS =
     [seq [Bol, Plus Digit, Star Space, OneOf ''+-*/'', Star Space, Plus Digit],
      seq [Bol, words [''what is'', ''define'', ''explain'', ''how to'', ''tutorial'']],
      words [''documentation'', ''docs'', ''api reference'', ''library''],
      alts [Lit ''code'', Lit ''programming'', Lit ''python'', Lit ''javascript'',
            Cat (Lit ''java'') Wb],
      words [''recipe'', ''cook'', ''food'', ''restaurant''],
      words [''movie'', ''music'', ''song'', ''game'', ''sport''],
      words [''stock'', ''crypto'', ''bitcoin'', ''investment''],
      words [''joke'', ''funny'', ''meme''],
      seq [Bol, words [''hi'', ''hello'', ''hey'', ''good morning'', ''good evening'']],
      words [''who are you'', ''what are you'', ''your name''],
      words [''weather forecast'', ''temperature tomorrow'']]"

definition TECH_OR_DEV_PATTERNS :: "rx list" where
  "TECH_OR_DEV_PATTERNS =
     [seq [Lit ''how'', Plus Space, Lit ''to'', Plus Space,
           alts [Lit ''deploy'', Lit ''install'', Lit ''build'',
                 seq [Lit ''set'', Star Space, Lit ''up'']]],
      seq [Lit ''deploy'', Opt (Lit ''ing''), Plus Space,
           words [''adk'', ''agent'', ''model'', ''app'', ''application'', ''service'']],
      seq [Wb,
           alts [Lit ''adk'', Lit ''sdk'', Lit ''docker'', Lit ''dockerfile'', Lit ''railway'',
                 Lit ''vercel'', seq [Lit ''cloud'', Star Space, Lit ''run''],
                 Lit ''github'', Lit ''gitlab''],
           Wb],
      seq [Lit ''code'', Plus Space, words [''sample'', ''snippet'', ''example'']],
      seq [words [''write'', ''generate''], Plus Space, Lit ''code''],
      alts [seq [Lit ''api'', Plus Space, Lit ''key''],
            seq [Lit ''api'', Plus Space, Lit ''keys'']],
      seq [words [''documentation'', ''docs'', ''tutorial'', ''guide''], Plus Space,
           words [''for'', ''about'']],
      seq [Lit ''install'', Plus Space, Opt (seq [Lit ''the'', Plus Space]),
           Lit ''dependencies'']]"

definition location_indicators :: "string list" where
  "location_indicators = [''in'', ''at'', ''near'', ''around'', ''happening'']"

definition situation_patterns :: "rx list" where
  "situation_patterns =
     [seq [Lit ''?'', Eol],
      seq [Bol, Lit ''is'', Space],
      seq [Bol, Lit ''are'', Space],
      seq [Bol, Lit ''what'', Star AnyChar, Lit ''happening''],
      Lit ''situation'',
      Lit ''status'',
      Lit ''update'',
      Lit ''news'',
      Lit ''report'']"

record validation =
  is_valid :: bool
  reason :: string
  category :: string

definition too_short_reason :: string where
  "too_short_reason =
     ''Query is too short. Please provide more details about the disaster situation you want to verify.''"

definition off_topic_reason :: string where
  "off_topic_reason =
     ''I'' @ [CHR 0x27] @ ''m InfoShield AI, specialized in disaster information verification. ''
     @ ''I can help you verify disaster reports, check emergency situations, and provide safety information. ''
     @ ''Please ask about a specific disaster or emergency situation.''"

definition tech_reason :: string where
  "tech_reason =
     ''I can'' @ [CHR 0x27] @ ''t switch to development or deployment support. ''
     @ ''Please keep the conversation focused on verifying an actual disaster situation.''"

text \<open>The bullet of the last message is U+2022, written here as its three UTF-8 bytes.\<close>

definition bullet :: string where
  "bullet = [CHR 0xE2, CHR 0x80, CHR 0xA2, CHR '' '']"

definition unclear_reason :: string where
  "unclear_reason =
     ''I'' @ [CHR 0x27] @ ''m InfoShield AI, designed specifically for disaster information verification. ''
     @ ''I can help you:'' @ [CHR 0x0A, CHR 0x0A]
     @ bullet @ ''Verify disaster reports (floods, earthquakes, fires, storms)'' @ [CHR 0x0A]
     @ bullet @ ''Check emergency situations in specific locations'' @ [CHR 0x0A]
     @ bullet @ ''Assess the credibility of disaster-related news'' @ [CHR 0x0A]
     @ bullet @ ''Provide safety information during emergencies'' @ [CHR 0x0A, CHR 0x0A]
     @ ''Please ask about a specific disaster or emergency situation you''
     @ [CHR 0x27] @ ''d like me to verify.''"

definition validate_query :: "string \<Rightarrow> validation" where
  "validate_query query =
     (let query_lower = strip (lower query) in
      if length query_lower < 5 then
        \<lparr> is_valid = False, reason = too_short_reason, category = ''unclear'' \<rparr>
      else if list_ex (re_matches True query_lower) OFF_TOPIC_PATTERNS then
        \<lparr> is_valid = False, reason = off_topic_reason, category = ''off_topic'' \<rparr>
      else if list_ex (re_matches True query_lower) TECH_OR_DEV_PATTERNS then
        \<lparr> is_valid = False, reason = tech_reason, category = ''off_topic'' \<rparr>
      else if any_in guardrails_DISASTER_KEYWORDS query_lower then
        \<lparr> is_valid = True, reason = ''Query is disaster-related'', category = ''disaster'' \<rparr>
      else if any_in location_indicators query_lower
              \<and> list_ex (re_matches False query_lower) situation_patterns then
        \<lparr> is_valid = True,
          reason = ''Query appears to be about a situation at a location'',
          category = ''disaster'' \<rparr>
      else
        \<lparr> is_valid = False, reason = unclear_reason, category = ''unclear'' \<rparr>)"

subsection \<open>Human-review queue (\<^verbatim>\<open>models.py\<close>, \<^verbatim>\<open>tools/human_review.py\<close>)\<close>

record HumanReviewEntry =
  entry_session_id :: string
  entry_query :: string
  entry_location :: string
  entry_urgency_score :: int
  entry_credibility_score :: int
  entry_timestamp :: string
  entry_status :: string
  entry_reviewer_notes :: string

definition to_csv_row :: "HumanReviewEntry \<Rightarrow> string list" where
  "to_csv_row e =
     [entry_session_id e, entry_query e, entry_location e,
      str_int (entry_urgency_score e), str_int (entry_credibility_score e),
      entry_timestamp e, entry_status e, entry_reviewer_notes e]"

definition csv_headers :: "string list" where
  "csv_headers =
     [''session_id'', ''query'', ''location'', ''urgency_score'',
      ''credibility_score'', ''timestamp'', ''status'', ''reviewer_notes'']"

text \<open>
  The file at \<^verbatim>\<open>PENDING_VERIFICATIONS_PATH\<close>. It is absent, or it holds a list of
  records (the header included), each a list of fields. \<^verbatim>\<open>csv.writer\<close> writes a
  record field by field, whatever the fields hold, and \<^verbatim>\<open>csv.reader\<close> reads the
  fields back as they were written, up to its field size limit (see
  \<^verbatim>\<open>csv_read\<close> below). In the third state every operation on the path raises
  \<^verbatim>\<open>OSError\<close>.
\<close>

datatype store = Absent | Present "string list list" | Unavailable

text \<open>The exceptions the queue catches. The text of an exception is not computed: a
  message built from \<^verbatim>\<open>str(e)\<close> records the exception itself.\<close>

datatype exn = OSError | ValueError "string option list" | CsvError

datatype message = Text string | Exception_text exn | Failed_to_save exn

text \<open>\<^verbatim>\<open>_ensure_csv_exists\<close>, returning the records of the file after the call.\<close>

definition ensure_csv_exists :: "store \<Rightarrow> exn + string list list" where
  "ensure_csv_exists st =
     (case st of
        Absent \<Rightarrow> Inr [csv_headers]
      | Present rows \<Rightarrow> Inr rows
      | Unavailable \<Rightarrow> Inl OSError)"

record save_result =
  sv_session_id :: string
  sv_status :: string
  sv_message :: message
  sv_estimated_review_time :: string

text \<open>\<^verbatim>\<open>save_for_human_review\<close>. The two values the source draws from its
  environment are arguments: \<^verbatim>\<open>uuid_hex\<close> is \<^verbatim>\<open>uuid.uuid4().hex\<close> and \<^verbatim>\<open>now\<close> is
  \<^verbatim>\<open>datetime.now().isoformat()\<close>.\<close>

definition save_for_human_review ::
  "string \<Rightarrow> string \<Rightarrow> int \<Rightarrow> int \<Rightarrow> string \<Rightarrow> string \<Rightarrow> store \<Rightarrow> store \<times> save_result" where
  "save_for_human_review query loc urgency credibility uuid_hex now st =
     (case ensure_csv_exists st of
        Inl e \<Rightarrow>
          (st, \<lparr> sv_session_id = [], sv_status = ''error'',
                 sv_message = Failed_to_save e, sv_estimated_review_time = ''unknown'' \<rparr>)
      | Inr rows \<Rightarrow>
          (let sid = ''IS-'' @ take 8 uuid_hex;
               entry = \<lparr> entry_session_id = sid, entry_query = query, entry_location = loc,
                         entry_urgency_score = urgency, entry_credibility_score = credibility,
                         entry_timestamp = now, entry_status = ''pending'',
                         entry_reviewer_notes = [] \<rparr>;
               review_time = (if urgency \<ge> 8 then ''within 15 minutes''
                              else if urgency \<ge> 5 then ''within 1 hour''
                              else ''within 24 hours'')
           in (Present (rows @ [to_csv_row entry]),
               \<lparr> sv_session_id = sid, sv_status = ''saved'',
                 sv_message = Text (''Query saved for human verification. Your reference ID is ''
                                     @ sid @ ''.''),
                 sv_estimated_review_time = review_time \<rparr>)))"

text \<open>
  A row of \<^verbatim>\<open>csv.DictReader\<close>: the dict from field names to values, in insertion
  order, where a value is \<^verbatim>\<open>None\<close> for a field the record is too short for; and, for
  a record longer than the header, the list of the remaining values that the reader
  stores under the key \<^verbatim>\<open>None\<close>.
\<close>

record row_dict =
  row_fields :: "(string \<times> string option) list"
  row_rest :: "string list option"

fun dict_set :: "'k \<Rightarrow> 'v \<Rightarrow> ('k \<times> 'v) list \<Rightarrow> ('k \<times> 'v) list" where
  "dict_set k v [] = [(k, v)]"
| "dict_set k v (p # d) = (if fst p = k then (k, v) # d else p # dict_set k v d)"

definition dict_of_pairs :: "('k \<times> 'v) list \<Rightarrow> ('k \<times> 'v) list" where
  "dict_of_pairs ps = foldl (\<lambda>d p. dict_set (fst p) (snd p) d) [] ps"

definition DictReader_row :: "string list \<Rightarrow> string list \<Rightarrow> row_dict" where
  "DictReader_row fieldnames row =
     (let d = dict_of_pairs (zip fieldnames (map Some row));
          lf = length fieldnames;
          lr = length row
      in if lf < lr then \<lparr> row_fields = d, row_rest = Some (drop lf row) \<rparr>
         else if lf > lr then
           \<lparr> row_fields = foldl (\<lambda>d key. dict_set key None d) d (drop lr fieldnames),
             row_rest = None \<rparr>
         else \<lparr> row_fields = d, row_rest = None \<rparr>)"

text \<open>
  \<^verbatim>\<open>csv.field_size_limit()\<close>, which the repository leaves at the default of the
  standard library. The reader raises \<^verbatim>\<open>csv.Error\<close> ("field larger than field
  limit") when it meets a field with more characters. Both functions that read the
  file read all of it inside one \<^verbatim>\<open>try\<close> and drop what they have read when the
  exception is raised, so reading is modelled on the whole file.
\<close>

definition field_size_limit :: nat where
  "field_size_limit = 131072"

definition csv_read :: "string list list \<Rightarrow> exn + string list list" where
  "csv_read rows =
     (if list_ex (list_ex (\<lambda>field. length field > field_size_limit)) rows
      then Inl CsvError else Inr rows)"

text \<open>The reader takes the first record as the field names and skips empty records
  after it.\<close>

definition DictReader :: "string list list \<Rightarrow> string list option \<times> row_dict list" where
  "DictReader rows =
     (case rows of
        [] \<Rightarrow> (None, [])
      | header # body \<Rightarrow> (Some header, map (DictReader_row header) (filter (\<lambda>r. r \<noteq> []) body)))"

text \<open>\<^verbatim>\<open>row.get(key)\<close> and \<^verbatim>\<open>row.get(key, default)\<close>; the outer \<^verbatim>\<open>None\<close> of
  \<^const>\<open>map_of\<close> is the missing key.\<close>

definition row_get :: "row_dict \<Rightarrow> string \<Rightarrow> string option" where
  "row_get row key = (case map_of (row_fields row) key of None \<Rightarrow> None | Some v \<Rightarrow> v)"

definition row_get_default :: "row_dict \<Rightarrow> string \<Rightarrow> string \<Rightarrow> string option" where
  "row_get_default row key dflt =
     (case map_of (row_fields row) key of None \<Rightarrow> Some dflt | Some v \<Rightarrow> v)"

record list_result =
  ls_count :: int
  ls_entries :: "row_dict list"
  ls_status :: string
  ls_message :: "message option"

text \<open>\<^verbatim>\<open>get_pending_reviews\<close>; the filter is an \<^verbatim>\<open>Optional[str]\<close>.\<close>

definition get_pending_reviews :: "string option \<Rightarrow> store \<Rightarrow> store \<times> list_result" where
  "get_pending_reviews status_filter st =
     (case ensure_csv_exists st of
        Inl e \<Rightarrow>
          (st, \<lparr> ls_count = 0, ls_entries = [], ls_status = ''error'',
                 ls_message = Some (Exception_text e) \<rparr>)
      | Inr rows \<Rightarrow>
          (case csv_read rows of
             Inl e \<Rightarrow>
               (Present rows,
                \<lparr> ls_count = 0, ls_entries = [], ls_status = ''error'',
                  ls_message = Some (Exception_text e) \<rparr>)
           | Inr records \<Rightarrow>
               (let entries = filter (\<lambda>row. status_filter = Some ''all''
                                            \<or> row_get_default row ''status'' ''pending''
                                                = status_filter)
                                (snd (DictReader records))
                in (Present rows,
                    \<lparr> ls_count = int (length entries), ls_entries = entries,
                      ls_status = ''success'', ls_message = None \<rparr>))))"

text \<open>
  \<^verbatim>\<open>csv.DictWriter\<close> with the default \<^verbatim>\<open>extrasaction\<close>: a dict with a key outside the
  field names raises \<^verbatim>\<open>ValueError\<close>; a missing or \<^verbatim>\<open>None\<close> value is written as the
  empty string. \<^verbatim>\<open>writerows\<close> writes record by record, so the records before the
  offending one are in the file when the exception is raised.
\<close>

definition wrong_fields :: "string list \<Rightarrow> row_dict \<Rightarrow> string option list" where
  "wrong_fields fieldnames row =
     map Some (filter (\<lambda>k. k \<notin> set fieldnames) (map fst (row_fields row)))
     @ (case row_rest row of None \<Rightarrow> [] | Some _ \<Rightarrow> [None])"

definition dict_to_list :: "string list \<Rightarrow> row_dict \<Rightarrow> exn + string list" where
  "dict_to_list fieldnames row =
     (if wrong_fields fieldnames row \<noteq> [] then Inl (ValueError (wrong_fields fieldnames row))
      else Inr (map (\<lambda>k. case row_get row k of None \<Rightarrow> [] | Some v \<Rightarrow> v) fieldnames))"

fun writerows :: "string list \<Rightarrow> row_dict list \<Rightarrow> string list list \<times> exn option" where
  "writerows fieldnames [] = ([], None)"
| "writerows fieldnames (row # rows) =
     (case dict_to_list fieldnames row of
        Inl e \<Rightarrow> ([], Some e)
      | Inr r \<Rightarrow> (case writerows fieldnames rows of (rs, err) \<Rightarrow> (r # rs, err)))"

record update_result =
  up_status :: string
  up_message :: message

text \<open>\<^verbatim>\<open>update_review_status\<close>. When an entry is found the file has a first record,
  so \<^verbatim>\<open>reader.fieldnames\<close> is not \<^verbatim>\<open>None\<close> where the writer is built.\<close>

definition mark_row :: "string \<Rightarrow> string \<Rightarrow> string \<Rightarrow> row_dict \<Rightarrow> row_dict" where
  "mark_row session_id new_status reviewer_notes row =
     (if row_get row ''session_id'' = Some session_id
      then row \<lparr> row_fields :=
             dict_set ''reviewer_notes'' (Some reviewer_notes)
               (dict_set ''status'' (Some new_status) (row_fields row)) \<rparr>
      else row)"

definition update_review_status ::
  "string \<Rightarrow> string \<Rightarrow> string \<Rightarrow> store \<Rightarrow> store \<times> update_result" where
  "update_review_status session_id new_status reviewer_notes st =
     (case ensure_csv_exists st of
        Inl e \<Rightarrow> (st, \<lparr> up_status = ''error'', up_message = Exception_text e \<rparr>)
      | Inr rows \<Rightarrow>
          (case csv_read rows of
             Inl e \<Rightarrow>
               (Present rows, \<lparr> up_status = ''error'', up_message = Exception_text e \<rparr>)
           | Inr records \<Rightarrow>
               (let (headers, body) = DictReader records;
                    found = list_ex (\<lambda>row. row_get row ''session_id'' = Some session_id) body;
                    entries = map (mark_row session_id new_status reviewer_notes) body
                in if \<not> found then
                     (Present rows,
                      \<lparr> up_status = ''error'',
                        up_message = Text (''Session ID '' @ session_id @ '' not found'') \<rparr>)
                   else
                     (let fieldnames = (case headers of None \<Rightarrow> [] | Some h \<Rightarrow> h) in
                      case writerows fieldnames entries of
                        (written, Some e) \<Rightarrow>
                          (Present (fieldnames # written),
                           \<lparr> up_status = ''error'', up_message = Exception_text e \<rparr>)
                      | (written, None) \<Rightarrow>
                          (Present (fieldnames # written),
                           \<lparr> up_status = ''success'',
                             up_message = Text (''Updated '' @ session_id @ '' to status: ''
                                                 @ new_status) \<rparr>)))))"

subsection \<open>The collaborator's event stream\<close>

text \<open>
  \<^verbatim>\<open>runner.run_async\<close> is outside the repository: what it yields is an argument of
  the model, a list of events that may end in an exception. Of an event the runners
  read the author, the error message, whether it is the final response, and the text
  of the first part of its content (absent when there is no content or no part; a
  part without text counts as the empty text). An exception raised while the session
  is set up is a stream without events.
\<close>

record event =
  ev_author :: "string option"
  ev_error_message :: "string option"
  ev_is_final :: bool
  ev_text :: "string option"

datatype raised = TimeoutError | OtherError string

type_synonym stream = "event list \<times> raised option"

definition truthy :: "string option \<Rightarrow> bool" where
  "truthy x = (case x of None \<Rightarrow> False | Some s \<Rightarrow> s \<noteq> [])"

text \<open>The result of a run. Of the response only its kind is kept: \<^verbatim>\<open>res_blocked\<close> is
  the category of a guardrail rejection and \<^verbatim>\<open>res_error\<close> the key of the entry of
  \<^verbatim>\<open>ERROR_MESSAGES\<close> that is returned; the report text, the notice appended to it and
  the timing metadata are not modelled.\<close>

record query_result =
  res_blocked :: "string option"
  res_error :: "string option"
  res_credibility_score :: "int option"
  res_agents_used :: "string list"
  res_human_review :: "(string \<times> string) option"

text \<open>The classification of an exception in the handlers of both runners.\<close>

definition error_key :: "raised \<Rightarrow> string" where
  "error_key e =
     (case e of
        TimeoutError \<Rightarrow> ''timeout''
      | OtherError msg \<Rightarrow>
          if sublist ''rate'' (lower msg) \<or> sublist ''quota'' (lower msg) then ''rate_limit''
          else if sublist ''timeout'' (lower msg) then ''timeout''
          else ''api_error'')"

text \<open>The loop over \<^verbatim>\<open>words\<close> of both \<^verbatim>\<open>_extract_location\<close> functions.\<close>

fun scan_location :: "(string \<Rightarrow> bool) \<Rightarrow> string list \<Rightarrow> string" where
  "scan_location is_prep [] = ''Unknown''"
| "scan_location is_prep (word # rest) =
     (if is_prep word \<and> rest \<noteq> []
      then strip_with (\<lambda>c. c \<in> set ''?.,!'') (join '' '' (take 2 rest))
      else scan_location is_prep rest)"

text \<open>The loop over \<^verbatim>\<open>patterns\<close> of both \<^verbatim>\<open>_extract_credibility_score\<close> functions.\<close>

fun first_score :: "rx list \<Rightarrow> string \<Rightarrow> int option" where
  "first_score [] response = None"
| "first_score (p # ps) response =
     (case re_search p True response of
        None \<Rightarrow> first_score ps response
      | Some st \<Rightarrow> map_option int_of_digits (group1 response st))"

definition colon_or_space :: rx where
  "colon_or_space = Alt (OneOf '':'') Space"

subsection \<open>The multi-agent runner (\<^verbatim>\<open>agents/runner.py\<close>)\<close>

definition runner_score_patterns :: "rx list" where
  "runner_score_patterns =
     [seq [Lit ''Credibility Score'', Star Space, OneOf [CHR ''|'', CHR 0x09], Star Space,
           Grp (Plus Digit), Lit ''/100''],
      seq [Lit ''Credibility Score'', Star Space, Lit ''|'', Star Space,
           Grp (Plus Digit), Lit ''/100''],
      seq [Lit ''Score'', Plus colon_or_space, Grp (Plus Digit), Lit ''/100''],
      seq [Lit ''credibility'', Plus colon_or_space, Grp (Plus Digit)],
      seq [Grp (Plus Digit), Lit ''/100'', Star AnyChar, Lit ''credibility'']]"

definition runner_extract_credibility_score :: "string \<Rightarrow> int option" where
  "runner_extract_credibility_score response = first_score runner_score_patterns response"

definition runner_extract_location :: "string \<Rightarrow> string" where
  "runner_extract_location query =
     scan_location (\<lambda>word. lower word \<in> set [''in'', ''at'', ''near'']) (split query)"

record multi_runner =
  enable_human_review :: bool
  query_count :: int
  error_count :: int
  agents_used :: "string list"

text \<open>The loop over the events, on \<^verbatim>\<open>(event_count, _agents_used, _error_count,
  final_response)\<close>; the flag tells whether the loop left by \<^verbatim>\<open>break\<close>.\<close>

fun multi_events ::
  "event list \<Rightarrow> int \<times> string list \<times> int \<times> string \<Rightarrow> (int \<times> string list \<times> int \<times> string) \<times> bool" where
  "multi_events [] s = (s, False)"
| "multi_events (ev # evs) (n, agents, errs, final) =
     (if n + 1 > 100 then ((n + 1, agents, errs, final), True)
      else multi_events evs
             (n + 1,
              (case ev_author ev of
                 None \<Rightarrow> agents
               | Some a \<Rightarrow> if a \<noteq> [] \<and> a \<notin> set agents then agents @ [a] else agents),
              (if truthy (ev_error_message ev) then errs + 1 else errs),
              (if ev_is_final ev then (case ev_text ev of None \<Rightarrow> final | Some t \<Rightarrow> t)
               else final)))"

text \<open>The urgency estimate of the post-processing.\<close>

definition multi_urgency :: "string \<Rightarrow> int" where
  "multi_urgency query =
     (if any_in [''emergency'', ''help'', ''urgent''] (lower query) then 8 else 5)"

text \<open>Lines 223 to 260 of \<^verbatim>\<open>process_query_async\<close>: score extraction and escalation.
  The result is the store, the extracted score and \<^verbatim>\<open>human_review_info\<close>.\<close>

definition multi_post_process ::
  "bool \<Rightarrow> string \<Rightarrow> string \<Rightarrow> string \<Rightarrow> string \<Rightarrow> store
     \<Rightarrow> store \<times> int option \<times> (string \<times> string) option" where
  "multi_post_process enabled query final_response uuid_hex now st =
     (let credibility_score = runner_extract_credibility_score final_response in
      case credibility_score of
        None \<Rightarrow> (st, None, None)
      | Some c \<Rightarrow>
          if enabled \<and> c < CREDIBILITY_THRESHOLD then
            (case save_for_human_review query (runner_extract_location query)
                    (multi_urgency query) c uuid_hex now st of
               (st', review_result) \<Rightarrow>
                 (st', Some c,
                  if sv_status review_result = ''saved''
                  then Some (sv_session_id review_result,
                             sv_estimated_review_time review_result)
                  else None))
          else (st, Some c, None))"

definition multi_process_query_async ::
  "multi_runner \<Rightarrow> string \<Rightarrow> stream \<Rightarrow> string \<Rightarrow> string \<Rightarrow> store
     \<Rightarrow> multi_runner \<times> store \<times> query_result" where
  "multi_process_query_async self query events uuid_hex now st =
     (let self1 = self \<lparr> query_count := query_count self + 1, agents_used := [] \<rparr>;
          validation = validate_query query
      in if \<not> is_valid validation then
           (self1, st,
            \<lparr> res_blocked = Some (category validation), res_error = None,
              res_credibility_score = None, res_agents_used = [''guardrail''],
              res_human_review = None \<rparr>)
         else
           (case multi_events (fst events) (0, [], error_count self1, []) of
              ((n, agents, errs, final), broke) \<Rightarrow>
                (let self2 = self1 \<lparr> agents_used := agents, error_count := errs \<rparr> in
                 case (if broke then None else snd events) of
                   Some e \<Rightarrow>
                     (self2 \<lparr> error_count := errs + 1 \<rparr>, st,
                      \<lparr> res_blocked = None, res_error = Some (error_key e),
                        res_credibility_score = None, res_agents_used = agents,
                        res_human_review = None \<rparr>)
                 | None \<Rightarrow>
                     if final = [] then
                       (self2 \<lparr> error_count := errs + 1 \<rparr>, st,
                        \<lparr> res_blocked = None, res_error = Some ''no_response'',
                          res_credibility_score = None, res_agents_used = agents,
                          res_human_review = None \<rparr>)
                     else
                       (case multi_post_process (enable_human_review self) query final
                               uuid_hex now st of
                          (st', credibility_score, human_review_info) \<Rightarrow>
                            (self2 \<lparr> error_count := 0 \<rparr>, st',
                             \<lparr> res_blocked = None, res_error = None,
                               res_credibility_score = credibility_score,
                               res_agents_used = agents,
                               res_human_review = human_review_info \<rparr>)))))"

subsection \<open>The single-agent runner (\<^verbatim>\<open>agent.py\<close>, class \<^verbatim>\<open>InfoShieldRunner\<close>)\<close>

definition agent_score_patterns :: "rx list" where
  "agent_score_patterns =
     [seq [Lit ''Credibility Score'', Star Space, Lit ''|'', Star Space,
           Grp (Plus Digit), Lit ''/100''],
      seq [Lit ''Credibility Score'', Plus colon_or_space, Grp (Plus Digit)],
      seq [Lit ''credibility'', Plus colon_or_space, Grp (Plus Digit)],
      seq [Grp (Plus Digit), Lit ''/100'', Star AnyChar, Lit ''credibility'']]"

definition agent_extract_credibility_score :: "string \<Rightarrow> int option" where
  "agent_extract_credibility_score response = first_score agent_score_patterns response"

definition agent_extract_location :: "string \<Rightarrow> string" where
  "agent_extract_location query =
     scan_location (\<lambda>word. word \<in> set [''in'', ''at'', ''near'', ''around''])
       (split (lower query))"

definition agent_urgency :: "string \<Rightarrow> int" where
  "agent_urgency query =
     (if any_in [''emergency'', ''urgent'', ''help'', ''trapped'', ''sos''] (lower query)
      then 8 else 5)"

text \<open>Lines 467 to 493 of \<^verbatim>\<open>InfoShieldRunner.process_query_async\<close>; the result is the
  store and, when an entry was saved, its session id and review time.\<close>

definition agent_post_process ::
  "bool \<Rightarrow> string \<Rightarrow> string \<Rightarrow> string \<Rightarrow> string \<Rightarrow> store \<Rightarrow> store \<times> (string \<times> string) option" where
  "agent_post_process enabled query final_response uuid_hex now st =
     (if enabled then
        (case agent_extract_credibility_score final_response of
           None \<Rightarrow> (st, None)
         | Some c \<Rightarrow>
             if c < CREDIBILITY_THRESHOLD then
               (case save_for_human_review query (agent_extract_location query)
                       (agent_urgency query) c uuid_hex now st of
                  (st', review_result) \<Rightarrow>
                    (st',
                     if sv_status review_result = ''saved''
                     then Some (sv_session_id review_result,
                                sv_estimated_review_time review_result)
                     else None))
             else (st, None))
      else (st, None))"

subsection \<open>Notions used in the statements and proofs\<close>


text \<open>A store as the queue leaves it: the file is absent or unreachable, or it starts
  with the header of \<^const>\<open>csv_headers\<close> and every record after it has eight fields.\<close>

definition store_ok :: "store \<Rightarrow> bool" where
  "store_ok st =
     (case st of
        Present rows \<Rightarrow> rows \<noteq> [] \<and> hd rows = csv_headers \<and> list_all (\<lambda>r. length r = 8) (tl rows)
      | _ \<Rightarrow> True)"

text \<open>Every field of the store is within the field size limit of the reader.\<close>

definition within_limit :: "store \<Rightarrow> bool" where
  "within_limit st =
     (case st of
        Present rows \<Rightarrow> list_all (list_all (\<lambda>field. length field \<le> field_size_limit)) rows
      | _ \<Rightarrow> True)"

text \<open>A sequence of calls of \<^const>\<open>update_review_status\<close>, each given as
  \<^verbatim>\<open>(session_id, new_status, reviewer_notes)\<close>.\<close>

fun apply_updates :: "(string \<times> string \<times> string) list \<Rightarrow> store \<Rightarrow> store" where
  "apply_updates [] st = st"
| "apply_updates ((sid, new_status, notes) # us) st =
     apply_updates us (fst (update_review_status sid new_status notes st))"

text \<open>What a successful \<^const>\<open>update_review_status\<close> writes back for a record of
  eight fields.\<close>

definition rewritten :: "string \<Rightarrow> string \<Rightarrow> string \<Rightarrow> string list \<Rightarrow> string list" where
  "rewritten sid new_status nts r = (if hd r = sid then take 6 r @ [new_status, nts] else r)"



text \<open>A query is cut between \<^verbatim>\<open>a\<close> and \<^verbatim>\<open>b\<close> without splitting a word: one of the
  two parts is empty, or the characters next to the cut are not both letters.\<close>

definition is_letter :: "char \<Rightarrow> bool" where
  "is_letter c = (is_lower c \<or> is_upper c)"

definition splits_no_word :: "string \<Rightarrow> string \<Rightarrow> bool" where
  "splits_no_word a b = (a = [] \<or> b = [] \<or> \<not> (is_letter (last a) \<and> is_letter (hd b)))"

section \<open>Properties\<close>

subsection \<open>Code equations for the character classes\<close>

lemma is_upper_bits [code]:
  "is_upper (Char b0 b1 b2 b3 b4 b5 b6 b7) = (b6 \<and> \<not> b5 \<and> \<not> b7 \<and> letter_bits b0 b1 b2 b3 b4)"
  by (cases b0; cases b1; cases b2; cases b3; cases b4; cases b5; cases b6; cases b7;
      simp add: is_upper_def upper_letters_def letter_bits_def)

lemma is_lower_bits [code]:
  "is_lower (Char b0 b1 b2 b3 b4 b5 b6 b7) = (b6 \<and> b5 \<and> \<not> b7 \<and> letter_bits b0 b1 b2 b3 b4)"
  by (cases b0; cases b1; cases b2; cases b3; cases b4; cases b5; cases b6; cases b7;
      simp add: is_lower_def lower_letters_def letter_bits_def)

lemma is_digit_bits [code]:
  "is_digit (Char b0 b1 b2 b3 b4 b5 b6 b7) =
     (b5 \<and> b4 \<and> \<not> b6 \<and> \<not> b7 \<and> \<not> (b3 \<and> (b2 \<or> b1)))"
  by (cases b0; cases b1; cases b2; cases b3; cases b4; cases b5; cases b6; cases b7;
      simp add: is_digit_def digits_def)

lemma lower_char_bits [code]:
  "lower_char (Char b0 b1 b2 b3 b4 b5 b6 b7) =
     (if b6 \<and> \<not> b5
         \<and> ((\<not> b7 \<and> letter_bits b0 b1 b2 b3 b4) \<or> (b7 \<and> \<not> (b4 \<and> b2 \<and> b1 \<and> b0)))
      then Char b0 b1 b2 b3 b4 True b6 b7 else Char b0 b1 b2 b3 b4 b5 b6 b7)"
  by (cases b0; cases b1; cases b2; cases b3; cases b4; cases b5; cases b6; cases b7;
      simp add: lower_char_def lower_letters_def upper_letters_def latin1_upper_def
        latin1_lower_def letter_bits_def)

subsection \<open>Credibility scorer\<close>

text \<open>
  Claim C1. On the summary "NDRF confirms flooding today in Chennai. Reuters reports
  heavy rain.", the sources "ndrf, reuters", the location "Chennai" and the disaster
  type "flood", \<^const>\<open>calculate_credibility\<close> returns the score 55 with one
  official and one news source; exactly two sources are found, so the bonus for three
  or more sources does not apply.
\<close>

theorem credibility_scenario_two_sources:
  "(let r = calculate_credibility
              ''NDRF confirms flooding today in Chennai. Reuters reports heavy rain.''
              ''ndrf, reuters'' ''Chennai'' ''flood''
    in score r = 55 \<and> official_sources_count r = 1 \<and> news_sources_count r = 1
       \<and> sources_found r = [''reuters'', ''ndrf''] \<and> length (sources_found r) = 2
       \<and> \<not> 3 \<le> length (sources_found r))"
  by code_simp

subsection \<open>Query analyzer\<close>

text \<open>
  Claim C4. On the query "Help! Flooding in Mumbai!!" without an inferred location,
  \<^const>\<open>analyze_query\<close> returns urgency 10, sentiment "panic", disaster type
  "flood" and the emergency flag set.
\<close>

theorem analyze_help_flooding_mumbai:
  "(let r = analyze_query ''Help! Flooding in Mumbai!!'' None
    in urgency_score r = 10 \<and> sentiment r = ''panic'' \<and> disaster_type r = Some ''flood''
       \<and> is_emergency r = True)"
  by code_simp

subsection \<open>Guardrail validator\<close>

text \<open>
  Claim C10. For every input, \<^const>\<open>validate_query\<close> accepts exactly when the
  category it returns is "disaster", rejects exactly when the category is "off_topic"
  or "unclear", and always returns a non-empty reason.
\<close>

theorem validate_query_category:
  "is_valid (validate_query q) = (category (validate_query q) = ''disaster'')
   \<and> (\<not> is_valid (validate_query q))
       = (category (validate_query q) = ''off_topic'' \<or> category (validate_query q) = ''unclear'')
   \<and> reason (validate_query q) \<noteq> []"
  by (simp add: validate_query_def Let_def too_short_reason_def off_topic_reason_def
        tech_reason_def unclear_reason_def)

text \<open>
  Claim C7. A query whose trimmed lower-case form has at least 5 characters, matches
  no off-topic pattern and matches a technical or deployment pattern is rejected with
  category "off_topic" and the deployment message, whatever disaster keywords it
  contains: the check runs before the keyword check.
\<close>

theorem tech_pattern_rejected:
  assumes "5 \<le> length (strip (lower q))"
    and "\<not> list_ex (re_matches True (strip (lower q))) OFF_TOPIC_PATTERNS"
    and "list_ex (re_matches True (strip (lower q))) TECH_OR_DEV_PATTERNS"
  shows "validate_query q = \<lparr> is_valid = False, reason = tech_reason, category = ''off_topic'' \<rparr>"
  using assms by (simp add: validate_query_def Let_def)

text \<open>The query "flood sdk" holds the disaster keyword "flood" and is rejected.\<close>

theorem tech_pattern_rejected_witness:
  "5 \<le> length (strip (lower ''flood sdk''))
   \<and> \<not> list_ex (re_matches True (strip (lower ''flood sdk''))) OFF_TOPIC_PATTERNS
   \<and> list_ex (re_matches True (strip (lower ''flood sdk''))) TECH_OR_DEV_PATTERNS
   \<and> any_in guardrails_DISASTER_KEYWORDS (strip (lower ''flood sdk''))
   \<and> validate_query ''flood sdk''
       = \<lparr> is_valid = False, reason = tech_reason, category = ''off_topic'' \<rparr>"
proof -
  have h1: "5 \<le> length (strip (lower ''flood sdk''))" by code_simp
  have h2: "\<not> list_ex (re_matches True (strip (lower ''flood sdk''))) OFF_TOPIC_PATTERNS"
    by code_simp
  have h3: "list_ex (re_matches True (strip (lower ''flood sdk''))) TECH_OR_DEV_PATTERNS"
    by code_simp
  have h4: "any_in guardrails_DISASTER_KEYWORDS (strip (lower ''flood sdk''))" by code_simp
  show ?thesis using h1 h2 h3 h4 tech_pattern_rejected [OF h1 h2 h3] by simp
qed

subsection \<open>Human-review queue\<close>

lemma csv_read_within:
  "list_all (list_all (\<lambda>field. length field \<le> field_size_limit)) rows
   \<Longrightarrow> csv_read rows = Inr rows"
  by (fastforce simp: csv_read_def list_ex_iff list_all_iff)


lemma csv_read_cases:
  "csv_read rows = Inl CsvError \<or> csv_read rows = Inr rows"
  by (simp add: csv_read_def)

lemma headers_within_limit:
  "list_all (\<lambda>field. length field \<le> field_size_limit) csv_headers"
  by (simp add: csv_headers_def field_size_limit_def)

lemma csv_read_headers:
  "csv_read [csv_headers] = Inr [csv_headers]"
  by (rule csv_read_within) (simp add: headers_within_limit)




subsubsection \<open>Saving and listing on a store within the field size limit\<close>

lemma length8:
  "length r = 8 \<Longrightarrow> \<exists>a b c d e f g h. r = [a, b, c, d, e, f, g, h]"
  by (auto simp: numeral_eq_Suc length_Suc_conv)

lemma reader_row8:
  "DictReader_row csv_headers [a, b, c, d, e, f, g, h] =
     \<lparr> row_fields = [(''session_id'', Some a), (''query'', Some b), (''location'', Some c),
                      (''urgency_score'', Some d), (''credibility_score'', Some e),
                      (''timestamp'', Some f), (''status'', Some g),
                      (''reviewer_notes'', Some h)],
       row_rest = None \<rparr>"
  by (simp add: DictReader_row_def csv_headers_def dict_of_pairs_def)

lemma mark_write8:
  "length r = 8 \<Longrightarrow>
   dict_to_list csv_headers (mark_row sid new_status nts (DictReader_row csv_headers r))
     = Inr (rewritten sid new_status nts r)"
proof -
  assume "length r = 8"
  then obtain a b c d e f g h where r: "r = [a, b, c, d, e, f, g, h]"
    using length8 by blast
  show ?thesis
    unfolding r reader_row8
    by (simp add: mark_row_def row_get_def dict_to_list_def wrong_fields_def csv_headers_def
          rewritten_def)
qed

lemma get_sid8:
  "length r = 8 \<Longrightarrow> row_get (DictReader_row csv_headers r) ''session_id'' = Some (hd r)"
proof -
  assume "length r = 8"
  then obtain a b c d e f g h where r: "r = [a, b, c, d, e, f, g, h]"
    using length8 by blast
  show ?thesis unfolding r reader_row8 by (simp add: row_get_def)
qed

lemma writerows8:
  "list_all (\<lambda>r. length r = 8) body \<Longrightarrow>
   writerows csv_headers
     (map (mark_row sid new_status nts \<circ> DictReader_row csv_headers) body)
     = (map (rewritten sid new_status nts) body, None)"
  by (induction body) (simp_all add: mark_write8)

lemma filter_nonempty8:
  "list_all (\<lambda>r. length r = 8) body \<Longrightarrow> filter (\<lambda>r. r \<noteq> []) body = body"
  by (induction body) auto

lemma update_on_ok_store:
  assumes "list_all (\<lambda>r. length r = 8) body"
  shows "fst (update_review_status sid new_status nts (Present (csv_headers # body)))
           = Present (csv_headers # body)
         \<or> fst (update_review_status sid new_status nts (Present (csv_headers # body)))
           = Present (csv_headers # map (rewritten sid new_status nts) body)"
  using assms csv_read_cases [of "csv_headers # body"]
  by (auto simp: update_review_status_def ensure_csv_exists_def DictReader_def
        filter_nonempty8 writerows8 Let_def)

lemma rewritten_props:
  "length r = 8 \<Longrightarrow>
   length (rewritten sid new_status nts r) = 8
   \<and> take 6 (rewritten sid new_status nts r) = take 6 r
   \<and> (hd r \<noteq> sid \<longrightarrow> rewritten sid new_status nts r = r)"
  by (simp add: rewritten_def)

lemma update_step:
  assumes ok: "store_ok (Present rows)" and r: "r \<in> set (tl rows)"
  shows "\<exists>rows1 r1. fst (update_review_status sid new_status nts (Present rows)) = Present rows1
           \<and> store_ok (Present rows1) \<and> r1 \<in> set (tl rows1)
           \<and> take 6 r1 = take 6 r \<and> (hd r \<noteq> sid \<longrightarrow> r1 = r)"
proof -
  from ok obtain body where rows: "rows = csv_headers # body"
    and all8: "list_all (\<lambda>r. length r = 8) body"
    by (cases rows) (auto simp: store_ok_def)
  from r rows have rb: "r \<in> set body" by simp
  with all8 have len: "length r = 8" by (simp add: list_all_iff)
  from update_on_ok_store [OF all8, of sid new_status nts]
  show ?thesis
  proof
    assume "fst (update_review_status sid new_status nts (Present (csv_headers # body)))
              = Present (csv_headers # body)"
    with ok rows rb show ?thesis by auto
  next
    assume u: "fst (update_review_status sid new_status nts (Present (csv_headers # body)))
              = Present (csv_headers # map (rewritten sid new_status nts) body)"
    have "store_ok (Present (csv_headers # map (rewritten sid new_status nts) body))"
      using all8 by (simp add: store_ok_def list_all_iff rewritten_props)
    moreover have "rewritten sid new_status nts r
                     \<in> set (tl (csv_headers # map (rewritten sid new_status nts) body))"
      using rb by simp
    ultimately show ?thesis
      using u rows rewritten_props [OF len, of sid new_status nts] by blast
  qed
qed

lemma updates_keep_entry:
  "store_ok (Present rows) \<Longrightarrow> r \<in> set (tl rows) \<Longrightarrow>
   \<exists>rows' r'. apply_updates us (Present rows) = Present rows'
       \<and> store_ok (Present rows') \<and> r' \<in> set (tl rows')
       \<and> take 6 r' = take 6 r \<and> (hd r \<notin> fst ` set us \<longrightarrow> r' = r)"
proof (induction us arbitrary: rows r)
  case Nil
  then show ?case by auto
next
  case (Cons u us)
  obtain sid new_status nts where u: "u = (sid, new_status, nts)" by (cases u)
  from update_step [OF Cons.prems, of sid new_status nts]
  obtain rows1 r1 where s1: "fst (update_review_status sid new_status nts (Present rows)) = Present rows1"
    and ok1: "store_ok (Present rows1)" and r1: "r1 \<in> set (tl rows1)"
    and t1: "take 6 r1 = take 6 r" and same1: "hd r \<noteq> sid \<longrightarrow> r1 = r"
    by blast
  from Cons.prems have "length r = 8"
    by (cases rows) (auto simp: store_ok_def list_all_iff)
  moreover from ok1 r1 have "length r1 = 8"
    by (cases rows1) (auto simp: store_ok_def list_all_iff)
  ultimately have hd_eq: "hd r1 = hd r"
    using t1 by (metis hd_take zero_less_numeral)
  from Cons.IH [OF ok1 r1]
  obtain rows' r' where "apply_updates us (Present rows1) = Present rows'"
    "store_ok (Present rows')" "r' \<in> set (tl rows')" "take 6 r' = take 6 r1"
    "hd r1 \<notin> fst ` set us \<longrightarrow> r' = r1"
    by blast
  then show ?case
    using u s1 t1 same1 hd_eq by auto
qed

lemma list_all_entries:
  assumes "store_ok (Present rows)" and lim: "within_limit (Present rows)"
  shows "ls_entries (snd (get_pending_reviews (Some ''all'') (Present rows)))
           = map (DictReader_row csv_headers) (tl rows)"
proof -
  from assms obtain body where "rows = csv_headers # body"
    and "list_all (\<lambda>r. length r = 8) body"
    by (cases rows) (auto simp: store_ok_def)
  moreover from lim have "csv_read rows = Inr rows"
    by (simp add: within_limit_def csv_read_within)
  ultimately show ?thesis
    by (simp add: get_pending_reviews_def ensure_csv_exists_def DictReader_def
          filter_nonempty8)
qed

lemma row_get8:
  "row_get (DictReader_row csv_headers [a, b, c, d, e, f, g, h]) ''session_id'' = Some a
   \<and> row_get (DictReader_row csv_headers [a, b, c, d, e, f, g, h]) ''query'' = Some b
   \<and> row_get (DictReader_row csv_headers [a, b, c, d, e, f, g, h]) ''location'' = Some c
   \<and> row_get (DictReader_row csv_headers [a, b, c, d, e, f, g, h]) ''urgency_score'' = Some d
   \<and> row_get (DictReader_row csv_headers [a, b, c, d, e, f, g, h]) ''credibility_score'' = Some e
   \<and> row_get (DictReader_row csv_headers [a, b, c, d, e, f, g, h]) ''timestamp'' = Some f
   \<and> row_get (DictReader_row csv_headers [a, b, c, d, e, f, g, h]) ''status'' = Some g
   \<and> row_get (DictReader_row csv_headers [a, b, c, d, e, f, g, h]) ''reviewer_notes'' = Some h"
  unfolding reader_row8 by (simp add: row_get_def)

lemma save_on_ok_store:
  assumes ok: "store_ok st"
    and saved: "sv_status (snd (save_for_human_review q loc u c uuid_hex now st)) = ''saved''"
  shows "\<exists>rows. fst (save_for_human_review q loc u c uuid_hex now st) = Present rows
           \<and> store_ok (Present rows)
           \<and> [''IS-'' @ take 8 uuid_hex, q, loc, str_int u, str_int c, now, ''pending'', []]
               \<in> set (tl rows)
           \<and> sv_session_id (snd (save_for_human_review q loc u c uuid_hex now st))
               = ''IS-'' @ take 8 uuid_hex"
proof (cases st)
  case Absent
  then show ?thesis
    by (simp add: save_for_human_review_def ensure_csv_exists_def store_ok_def
          to_csv_row_def Let_def)
next
  case (Present rows)
  with ok obtain body where "rows = csv_headers # body"
    and "list_all (\<lambda>r. length r = 8) body"
    by (cases rows) (auto simp: store_ok_def)
  with Present show ?thesis
    by (simp add: save_for_human_review_def ensure_csv_exists_def store_ok_def
          to_csv_row_def Let_def)
next
  case Unavailable
  with saved show ?thesis
    by (simp add: save_for_human_review_def ensure_csv_exists_def)
qed

lemma store_ok_update:
  "store_ok st \<Longrightarrow> store_ok (fst (update_review_status sid new_status nts st))"
proof (cases st)
  case (Present rows)
  assume ok: "store_ok st"
  with Present obtain body where rows: "rows = csv_headers # body"
    and all8: "list_all (\<lambda>r. length r = 8) body"
    by (cases rows) (auto simp: store_ok_def)
  have "store_ok (Present (csv_headers # map (rewritten sid new_status nts) body))"
    using all8 by (simp add: store_ok_def list_all_iff rewritten_props)
  with update_on_ok_store [OF all8, of sid new_status nts] ok Present rows
  show ?thesis by auto
next
  case Absent
  then show ?thesis
    by (simp add: update_review_status_def ensure_csv_exists_def store_ok_def DictReader_def
          csv_read_headers)
next
  case Unavailable
  then show ?thesis
    by (simp add: update_review_status_def ensure_csv_exists_def store_ok_def)
qed

lemma store_ok_save:
  "store_ok st \<Longrightarrow> store_ok (fst (save_for_human_review q loc u c uuid_hex now st))"
proof (cases st)
  case (Present rows)
  assume "store_ok st"
  with Present obtain body where "rows = csv_headers # body"
    and "list_all (\<lambda>r. length r = 8) body"
    by (cases rows) (auto simp: store_ok_def)
  with Present show ?thesis
    by (simp add: save_for_human_review_def ensure_csv_exists_def store_ok_def
          to_csv_row_def Let_def)
qed (simp_all add: save_for_human_review_def ensure_csv_exists_def store_ok_def
       to_csv_row_def Let_def)

lemma store_ok_list:
  "store_ok st \<Longrightarrow> store_ok (fst (get_pending_reviews status_filter st))"
  by (cases st)
     (simp_all add: get_pending_reviews_def ensure_csv_exists_def store_ok_def Let_def
        split: sum.splits)

lemma within_limit_update:
  assumes ok: "store_ok st" and lim: "within_limit st"
    and new: "length new_status \<le> field_size_limit" "length nts \<le> field_size_limit"
  shows "within_limit (fst (update_review_status sid new_status nts st))"
proof (cases st)
  case Absent
  have "csv_read [csv_headers] = Inr [csv_headers]"
    by (rule csv_read_within) (simp add: headers_within_limit)
  with Absent show ?thesis
    by (simp add: update_review_status_def ensure_csv_exists_def DictReader_def
          within_limit_def headers_within_limit)
next
  case (Present rows)
  with ok obtain body where rows: "rows = csv_headers # body"
    and all8: "list_all (\<lambda>r. length r = 8) body"
    by (cases rows) (auto simp: store_ok_def)
  have "list_all (\<lambda>field. length field \<le> field_size_limit) (rewritten sid new_status nts r)"
    if "list_all (\<lambda>field. length field \<le> field_size_limit) r" for r
    using that new by (auto simp: rewritten_def list_all_iff dest: in_set_takeD)
  with lim Present rows
  have "within_limit (Present (csv_headers # map (rewritten sid new_status nts) body))"
    by (auto simp: within_limit_def list_all_iff)
  with update_on_ok_store [OF all8, of sid new_status nts] lim Present rows
  show ?thesis by auto
next
  case Unavailable
  then show ?thesis
    by (simp add: update_review_status_def ensure_csv_exists_def within_limit_def)
qed

lemma within_limit_save:
  assumes lim: "within_limit st"
    and new: "list_all (\<lambda>field. length field \<le> field_size_limit)
                [q, loc, str_int u, str_int c, now]"
  shows "within_limit (fst (save_for_human_review q loc u c uuid_hex now st))"
proof -
  have sid: "length (''IS-'' @ take 8 uuid_hex) \<le> field_size_limit"
    by (simp add: field_size_limit_def)
  have fixed: "length ''pending'' \<le> field_size_limit"
    by (simp add: field_size_limit_def)
  from lim new sid fixed show ?thesis
    by (cases st)
       (simp_all add: save_for_human_review_def ensure_csv_exists_def within_limit_def
          to_csv_row_def Let_def headers_within_limit)
qed

lemma updates_within_limit:
  "store_ok st \<Longrightarrow> within_limit st
   \<Longrightarrow> list_all (\<lambda>u. length (fst (snd u)) \<le> field_size_limit
                        \<and> length (snd (snd u)) \<le> field_size_limit) us
   \<Longrightarrow> within_limit (apply_updates us st)"
proof (induction us arbitrary: st)
  case Nil
  then show ?case by simp
next
  case (Cons u us)
  obtain sid new_status nts where u: "u = (sid, new_status, nts)" by (cases u)
  from Cons.prems u
  have "store_ok (fst (update_review_status sid new_status nts st))"
    and "within_limit (fst (update_review_status sid new_status nts st))"
    by (simp_all add: store_ok_update within_limit_update)
  with Cons.IH Cons.prems u show ?case by simp
qed

text \<open>
  On a store as the queue leaves it (\<^const>\<open>store_ok\<close>, which holds of the absent
  file and is kept by the three operations) and as long as every field written stays
  within the field size limit of the reader, an entry written by a successful
  \<^const>\<open>save_for_human_review\<close> is found by \<^const>\<open>get_pending_reviews\<close> with the
  filter "all", after any sequence of updates, with its session id, query, location,
  urgency score, credibility score and timestamp as they were written (the two scores
  as the decimal strings that \<^const>\<open>to_csv_row\<close> stores); its status and reviewer
  notes are still "pending" and empty unless one of the updates was on its session id.
\<close>

lemma round_trip_within_limit:
  assumes ok: "store_ok st" and lim: "within_limit st"
    and saved: "sv_status (snd (save_for_human_review q loc u c uuid_hex now st)) = ''saved''"
    and new: "list_all (\<lambda>field. length field \<le> field_size_limit)
                [q, loc, str_int u, str_int c, now]"
    and ups: "list_all (\<lambda>u. length (fst (snd u)) \<le> field_size_limit
                             \<and> length (snd (snd u)) \<le> field_size_limit) us"
  shows "\<exists>row \<in> set (ls_entries (snd (get_pending_reviews (Some ''all'')
                    (apply_updates us (fst (save_for_human_review q loc u c uuid_hex now st)))))).
           row_get row ''session_id''
             = Some (sv_session_id (snd (save_for_human_review q loc u c uuid_hex now st)))
           \<and> row_get row ''query'' = Some q
           \<and> row_get row ''location'' = Some loc
           \<and> row_get row ''urgency_score'' = Some (str_int u)
           \<and> row_get row ''credibility_score'' = Some (str_int c)
           \<and> row_get row ''timestamp'' = Some now
           \<and> (sv_session_id (snd (save_for_human_review q loc u c uuid_hex now st))
                  \<notin> fst ` set us
                \<longrightarrow> row_get row ''status'' = Some ''pending''
                    \<and> row_get row ''reviewer_notes'' = Some [])"
proof -
  let ?sid = "''IS-'' @ take 8 uuid_hex"
  let ?r0 = "[?sid, q, loc, str_int u, str_int c, now, ''pending'', []]"
  from save_on_ok_store [OF ok saved]
  obtain rows where s: "fst (save_for_human_review q loc u c uuid_hex now st) = Present rows"
    and ok1: "store_ok (Present rows)" and r0: "?r0 \<in> set (tl rows)"
    and sid: "sv_session_id (snd (save_for_human_review q loc u c uuid_hex now st)) = ?sid"
    by blast
  from within_limit_save [OF lim new, of uuid_hex] s
  have lim1: "within_limit (Present rows)" by simp
  from updates_keep_entry [OF ok1 r0, of us]
  obtain rows' r' where a: "apply_updates us (Present rows) = Present rows'"
    and ok': "store_ok (Present rows')" and r': "r' \<in> set (tl rows')"
    and t: "take 6 r' = take 6 ?r0" and same: "hd ?r0 \<notin> fst ` set us \<longrightarrow> r' = ?r0"
    by blast
  from updates_within_limit [OF ok1 lim1 ups] a
  have lim': "within_limit (Present rows')" by simp
  from ok' r' have "length r' = 8"
    by (cases rows') (auto simp: store_ok_def list_all_iff)
  then obtain a0 b0 c0 d0 e0 f0 g0 h0 where r8: "r' = [a0, b0, c0, d0, e0, f0, g0, h0]"
    using length8 by blast
  from t r8 have fields: "a0 = ?sid" "b0 = q" "c0 = loc" "d0 = str_int u" "e0 = str_int c" "f0 = now"
    by simp_all
  have "DictReader_row csv_headers r'
          \<in> set (ls_entries (snd (get_pending_reviews (Some ''all'') (Present rows'))))"
    using r' by (simp add: list_all_entries [OF ok' lim'])
  moreover have "row_get (DictReader_row csv_headers r') ''session_id'' = Some ?sid
      \<and> row_get (DictReader_row csv_headers r') ''query'' = Some q
      \<and> row_get (DictReader_row csv_headers r') ''location'' = Some loc
      \<and> row_get (DictReader_row csv_headers r') ''urgency_score'' = Some (str_int u)
      \<and> row_get (DictReader_row csv_headers r') ''credibility_score'' = Some (str_int c)
      \<and> row_get (DictReader_row csv_headers r') ''timestamp'' = Some now"
    unfolding r8 using row_get8 [of a0 b0 c0 d0 e0 f0 g0 h0] fields by simp
  moreover have "?sid \<notin> fst ` set us
      \<longrightarrow> row_get (DictReader_row csv_headers r') ''status'' = Some ''pending''
          \<and> row_get (DictReader_row csv_headers r') ''reviewer_notes'' = Some []"
    using same row_get8 [of ?sid q loc "str_int u" "str_int c" now "''pending''" "[]"] by simp
  ultimately show ?thesis
    unfolding s a sid by blast
qed

text \<open>
  Claim C9 at a query of 131073 characters, one more than the field size limit of
  the reader. \<^const>\<open>save_for_human_review\<close> accepts the entry and reports it as
  saved; afterwards \<^const>\<open>get_pending_reviews\<close> with the filter "all" returns the
  status "error" and no entry at all, and the entry cannot be updated either.
\<close>

theorem oversized_query_not_listed:
  "(let r = save_for_human_review (replicate 131073 CHR ''a'') ''Unknown'' 5 45
              ''0123456789abcdef'' ''t'' Absent
    in sv_status (snd r) = ''saved''
       \<and> sv_session_id (snd r) = ''IS-01234567''
       \<and> ls_status (snd (get_pending_reviews (Some ''all'') (fst r))) = ''error''
       \<and> ls_count (snd (get_pending_reviews (Some ''all'') (fst r))) = 0
       \<and> ls_entries (snd (get_pending_reviews (Some ''all'') (fst r))) = []
       \<and> up_status (snd (update_review_status ''IS-01234567'' ''verified'' [] (fst r)))
           = ''error'')"
  by (simp add: save_for_human_review_def ensure_csv_exists_def get_pending_reviews_def
        update_review_status_def csv_read_def to_csv_row_def field_size_limit_def Let_def)

subsection \<open>Post-processing of the runners\<close>

lemma multi_urgency_eight_iff:
  "multi_urgency q = 8 \<longleftrightarrow> any_in [''emergency'', ''help'', ''urgent''] (lower q)"
  by (simp add: multi_urgency_def)

lemma agent_urgency_eight_iff:
  "agent_urgency q = 8 \<longleftrightarrow> any_in [''emergency'', ''urgent'', ''help'', ''trapped'', ''sos''] (lower q)"
  by (simp add: agent_urgency_def)

lemma agent_urgency_values: "agent_urgency q = 8 \<or> agent_urgency q = 5"
  by (simp add: agent_urgency_def)

text \<open>
  Claim C2, as amended. The threshold is 60. When human review is enabled (the
  default of the constructor), the extracted score is below the threshold and the
  store can be opened, the post-processing of the multi-agent runner appends exactly
  one record to the store, with status "pending", and reports its session id; the
  review time is "within 1 hour" when the urgency estimate is 5. When human review is
  disabled, no score is extracted, the score is at least the threshold, or the store
  cannot be opened, the store is left as it was and no review is reported.
\<close>

theorem post_process_escalation:
  "CREDIBILITY_THRESHOLD = 60
   \<and> (enabled \<and> runner_extract_credibility_score resp = Some c \<and> c < CREDIBILITY_THRESHOLD
        \<and> ensure_csv_exists st = Inr rows \<longrightarrow>
        multi_post_process enabled query resp uuid_hex now st
          = (Present (rows @ [[''IS-'' @ take 8 uuid_hex, query, runner_extract_location query,
                               str_int (multi_urgency query), str_int c, now, ''pending'', []]]),
             Some c,
             Some (''IS-'' @ take 8 uuid_hex,
                   if multi_urgency query = 5 then ''within 1 hour'' else ''within 15 minutes'')))
   \<and> (\<not> enabled \<or> runner_extract_credibility_score resp = None
        \<or> (\<exists>c. runner_extract_credibility_score resp = Some c \<and> CREDIBILITY_THRESHOLD \<le> c)
        \<or> st = Unavailable \<longrightarrow>
        fst (multi_post_process enabled query resp uuid_hex now st) = st
        \<and> snd (snd (multi_post_process enabled query resp uuid_hex now st)) = None)"
proof (intro conjI impI)
  show "CREDIBILITY_THRESHOLD = 60" by (simp add: CREDIBILITY_THRESHOLD_def)
next
  assume "enabled \<and> runner_extract_credibility_score resp = Some c \<and> c < CREDIBILITY_THRESHOLD
          \<and> ensure_csv_exists st = Inr rows"
  then show "multi_post_process enabled query resp uuid_hex now st
          = (Present (rows @ [[''IS-'' @ take 8 uuid_hex, query, runner_extract_location query,
                               str_int (multi_urgency query), str_int c, now, ''pending'', []]]),
             Some c,
             Some (''IS-'' @ take 8 uuid_hex,
                   if multi_urgency query = 5 then ''within 1 hour'' else ''within 15 minutes''))"
    by (simp add: multi_post_process_def save_for_human_review_def to_csv_row_def Let_def
          multi_urgency_def)
next
  assume a: "\<not> enabled \<or> runner_extract_credibility_score resp = None
        \<or> (\<exists>c. runner_extract_credibility_score resp = Some c \<and> CREDIBILITY_THRESHOLD \<le> c)
        \<or> st = Unavailable"
  then show "fst (multi_post_process enabled query resp uuid_hex now st) = st"
    by (auto simp: multi_post_process_def save_for_human_review_def ensure_csv_exists_def
          Let_def split: option.splits)
  from a show "snd (snd (multi_post_process enabled query resp uuid_hex now st)) = None"
    by (auto simp: multi_post_process_def save_for_human_review_def ensure_csv_exists_def
          Let_def split: option.splits)
qed

text \<open>The report "Credibility Score | 45/100" for the query "flood", no file yet.\<close>

theorem post_process_escalation_witness:
  "runner_extract_credibility_score ''Credibility Score | 45/100'' = Some 45
   \<and> (45 :: int) < CREDIBILITY_THRESHOLD
   \<and> ensure_csv_exists Absent = Inr [csv_headers]
   \<and> multi_urgency ''flood'' = 5
   \<and> multi_post_process True ''flood'' ''Credibility Score | 45/100'' ''0123456789abcdef'' ''t'' Absent
       = (Present [csv_headers,
                   [''IS-01234567'', ''flood'', ''Unknown'', ''5'', ''45'', ''t'', ''pending'', []]],
          Some 45, Some (''IS-01234567'', ''within 1 hour''))"
proof -
  have h1: "runner_extract_credibility_score ''Credibility Score | 45/100'' = Some 45"
    by code_simp
  have h2: "(45 :: int) < CREDIBILITY_THRESHOLD" by (simp add: CREDIBILITY_THRESHOLD_def)
  have h3: "ensure_csv_exists Absent = Inr [csv_headers]" by (simp add: ensure_csv_exists_def)
  have h4: "multi_urgency ''flood'' = 5" by code_simp
  have h5: "runner_extract_location ''flood'' = ''Unknown''" by code_simp
  have h6: "str_int 5 = ''5''" "str_int 45 = ''45''" by code_simp+
  show ?thesis
    using h1 h2 h3 h4 h5 h6
      post_process_escalation [of True "''Credibility Score | 45/100''" 45 Absent "[csv_headers]"
        "''flood''" "''0123456789abcdef''" "''t''"]
    by simp
qed

text \<open>
  Claim C2 as stated fails on a runner built with \<^verbatim>\<open>enable_human_review=False\<close>: the
  query "flood" passes the guardrail, the report yields the score 45, below 60, and
  the run leaves the store absent and reports no review.
\<close>

theorem escalation_disabled_counterexample:
  "is_valid (validate_query ''flood'')
   \<and> runner_extract_credibility_score ''Credibility Score | 45/100'' = Some 45
   \<and> (45 :: int) < CREDIBILITY_THRESHOLD
   \<and> multi_process_query_async
        \<lparr> enable_human_review = False, query_count = 0, error_count = 0, agents_used = [] \<rparr>
        ''flood''
        ([\<lparr> ev_author = Some ''infoshield_orchestrator'', ev_error_message = None,
            ev_is_final = True, ev_text = Some ''Credibility Score | 45/100'' \<rparr>], None)
        ''0123456789abcdef'' ''t'' Absent
       = (\<lparr> enable_human_review = False, query_count = 1, error_count = 0,
            agents_used = [''infoshield_orchestrator''] \<rparr>,
          Absent,
          \<lparr> res_blocked = None, res_error = None, res_credibility_score = Some 45,
            res_agents_used = [''infoshield_orchestrator''], res_human_review = None \<rparr>)"
  by code_simp

text \<open>
  Claim C3 at the query "Trapped in flood" with a report of score 45. The query
  contains the keyword "trapped", so the urgency estimate of the claim is 8; the
  multi-agent runner, whose list holds only "emergency", "help" and "urgent", saves
  the entry with urgency 5, while the single-agent runner saves it with urgency 8.
\<close>

theorem multi_runner_urgency_misses_trapped:
  "is_valid (validate_query ''Trapped in flood'')
   \<and> any_in [''emergency'', ''help'', ''urgent'', ''trapped'', ''sos''] (lower ''Trapped in flood'')
   \<and> multi_urgency ''Trapped in flood'' = 5
   \<and> agent_urgency ''Trapped in flood'' = 8
   \<and> fst (snd (multi_process_query_async
        \<lparr> enable_human_review = True, query_count = 0, error_count = 0, agents_used = [] \<rparr>
        ''Trapped in flood''
        ([\<lparr> ev_author = Some ''infoshield_orchestrator'', ev_error_message = None,
            ev_is_final = True, ev_text = Some ''Credibility Score | 45/100'' \<rparr>], None)
        ''0123456789abcdef'' ''t'' Absent))
       = Present [csv_headers,
                  [''IS-01234567'', ''Trapped in flood'', ''flood'', ''5'', ''45'', ''t'',
                   ''pending'', []]]
   \<and> fst (agent_post_process True ''Trapped in flood'' ''Credibility Score | 45/100''
             ''0123456789abcdef'' ''t'' Absent)
       = Present [csv_headers,
                  [''IS-01234567'', ''Trapped in flood'', ''flood'', ''8'', ''45'', ''t'',
                   ''pending'', []]]"
  by code_simp

subsection \<open>Bounds and the doubt rule of the scorer\<close>

lemma lower_append: "lower (a @ b) = lower a @ lower b"
  by (simp add: lower_def)











subsection \<open>Urgency of the analyzer\<close>

lemma sublist_in_context: "sublist k q \<Longrightarrow> sublist k (pre @ q @ post)"
  by (meson sublist_appendI sublist_order.order_trans)

lemma any_in_context: "any_in kws q \<Longrightarrow> any_in kws (pre @ q @ post)"
  by (auto simp: any_in_def list_ex_iff intro: sublist_in_context)

lemma filter_length_mono:
  "(\<And>x. x \<in> set xs \<Longrightarrow> P x \<Longrightarrow> Q x) \<Longrightarrow> length (filter P xs) \<le> length (filter Q xs)"
  by (induction xs) auto

lemma if_add: "(if c then u + k else u) = u + (if c then k else (0::int))"
  by simp

lemma if_nonempty_length: "(if xs \<noteq> [] then int (length xs) else 0) = int (length xs)"
  by simp

lemma urgency_formula:
  "urgency_score (analyze_query q l)
     = min 10 (max 1 (3 + (if any_in panic_indicators (lower q) then 4 else 0)
                        + (if any_in urgent_indicators (lower q) then 2 else 0)
                        + (if 2 \<le> count_char CHR ''!'' q then 1 else 0)
                        + int (length (filter (\<lambda>kw. sublist kw (lower q)) DISASTER_KEYWORDS))))"
  by (simp add: analyze_query_def Let_def if_add if_nonempty_length split del: if_split)

text \<open>The urgency does not decrease from \<^verbatim>\<open>q\<close> to \<^verbatim>\<open>q'\<close> when every indicator and
  keyword found in \<^verbatim>\<open>q\<close> is found in \<^verbatim>\<open>q'\<close> and \<^verbatim>\<open>q'\<close> has at least as many
  exclamation marks.\<close>

lemma urgency_mono:
  assumes p: "any_in panic_indicators (lower q) \<Longrightarrow> any_in panic_indicators (lower q')"
    and u: "any_in urgent_indicators (lower q) \<Longrightarrow> any_in urgent_indicators (lower q')"
    and c: "count_char CHR ''!'' q \<le> count_char CHR ''!'' q'"
    and k: "\<And>kw. kw \<in> set DISASTER_KEYWORDS \<Longrightarrow> sublist kw (lower q) \<Longrightarrow> sublist kw (lower q')"
  shows "urgency_score (analyze_query q l) \<le> urgency_score (analyze_query q' l')"
proof -
  have len: "length (filter (\<lambda>kw. sublist kw (lower q)) DISASTER_KEYWORDS)
               \<le> length (filter (\<lambda>kw. sublist kw (lower q')) DISASTER_KEYWORDS)"
    by (rule filter_length_mono) (rule k)
  have "3 + (if any_in panic_indicators (lower q) then 4 else 0)
          + (if any_in urgent_indicators (lower q) then 2 else 0)
          + (if 2 \<le> count_char CHR ''!'' q then 1 else 0)
          + int (length (filter (\<lambda>kw. sublist kw (lower q)) DISASTER_KEYWORDS))
        \<le> 3 + (if any_in panic_indicators (lower q') then 4 else 0)
          + (if any_in urgent_indicators (lower q') then 2 else 0)
          + (if 2 \<le> count_char CHR ''!'' q' then 1 else 0)
          + int (length (filter (\<lambda>kw. sublist kw (lower q')) DISASTER_KEYWORDS))"
    using p u c len by (intro add_mono) auto
  then show ?thesis
    unfolding urgency_formula by auto
qed

subsubsection \<open>Text added inside the query\<close>

lemma lower_char_letter: "is_lower (lower_char c) = is_letter c"
proof (cases c)
  case (Char b0 b1 b2 b3 b4 b5 b6 b7)
  then show ?thesis
    by (auto simp: lower_char_bits is_lower_bits is_upper_bits is_letter_def)
qed

text \<open>Every indicator and keyword of the analyzer is a single character or consists
  of lower-case letters.\<close>

lemma keyword_shape:
  "list_all (\<lambda>k. length k \<le> 1 \<or> list_all is_lower k)
     (panic_indicators @ urgent_indicators @ DISASTER_KEYWORDS)"
  by code_simp

lemma sublist_insert:
  assumes sub: "sublist k (a @ b)"
    and shape: "length k \<le> 1 \<or> list_all P k"
    and cut: "a = [] \<or> b = [] \<or> \<not> (P (last a) \<and> P (hd b))"
  shows "sublist k (a @ ins @ b)"
proof -
  have in_a: "sublist k a \<Longrightarrow> ?thesis"
    by (meson sublist_append_rightI sublist_order.order_trans)
  have in_b: "sublist k b \<Longrightarrow> ?thesis"
    by (metis append_assoc sublist_append_leftI sublist_order.order_trans)
  from sub consider "sublist k a" | "sublist k b"
    | k1 k2 where "k = k1 @ k2" "suffix k1 a" "prefix k2 b"
    by (auto simp: sublist_append)
  then show ?thesis
  proof cases
    case 1
    then show ?thesis by (rule in_a)
  next
    case 2
    then show ?thesis by (rule in_b)
  next
    case 3
    show ?thesis
    proof (cases "k1 = [] \<or> k2 = []")
      case True
      with 3 show ?thesis using in_a in_b by auto
    next
      case False
      with 3 have "2 \<le> length k" by (cases k1; cases k2) auto
      with shape have allP: "list_all P k" by simp
      from False 3 have a: "a \<noteq> []" and la: "last a = last k1"
        by (auto simp: suffix_def)
      from False 3 have b: "b \<noteq> []" and hb: "hd b = hd k2"
        by (auto simp: prefix_def)
      from allP 3 False have "P (last k1)" "P (hd k2)"
        by (auto simp: list_all_iff)
      with cut a b la hb show ?thesis by simp
    qed
  qed
qed

lemma lower_cut:
  assumes "splits_no_word a b"
  shows "lower a = [] \<or> lower b = []
         \<or> \<not> (is_lower (last (lower a)) \<and> is_lower (hd (lower b)))"
proof (cases "a = [] \<or> b = []")
  case True
  then show ?thesis by (auto simp: lower_def)
next
  case False
  then have "last (lower a) = lower_char (last a)" "hd (lower b) = lower_char (hd b)"
    by (simp_all add: lower_def last_map hd_map)
  with assms False show ?thesis
    by (simp add: splits_no_word_def lower_char_letter)
qed

lemma keyword_insert:
  assumes kw: "k \<in> set (panic_indicators @ urgent_indicators @ DISASTER_KEYWORDS)"
    and cut: "splits_no_word a b"
    and sub: "sublist k (lower (a @ b))"
  shows "sublist k (lower (a @ ins @ b))"
proof -
  from kw keyword_shape have shape: "length k \<le> 1 \<or> list_all is_lower k"
    unfolding list_all_iff by blast
  from sub have sub': "sublist k (lower a @ lower b)" by (simp add: lower_append)
  have "sublist k (lower a @ lower ins @ lower b)"
    using sub' shape lower_cut [OF cut] by (rule sublist_insert)
  then show ?thesis by (simp add: lower_append)
qed

lemma any_in_insert:
  assumes "set kws \<subseteq> set (panic_indicators @ urgent_indicators @ DISASTER_KEYWORDS)"
    and "splits_no_word a b" and "any_in kws (lower (a @ b))"
  shows "any_in kws (lower (a @ ins @ b))"
  using assms unfolding any_in_def list_ex_iff
  by (meson keyword_insert subsetD)

text \<open>
  Claim C6. The urgency score of \<^const>\<open>analyze_query\<close> is between 1 and 10 for
  every query. It does not decrease when text (indicators, keywords or anything
  else) is added before or after a query that is otherwise left as it is, nor when
  text is added inside the query at a place that is not between two letters, whatever
  the inferred locations.
\<close>

theorem urgency_bounds_and_monotone:
  "1 \<le> urgency_score (analyze_query q l)
   \<and> urgency_score (analyze_query q l) \<le> 10
   \<and> urgency_score (analyze_query q l) \<le> urgency_score (analyze_query (pre @ q @ post) l')
   \<and> (splits_no_word a b \<longrightarrow>
        urgency_score (analyze_query (a @ b) l) \<le> urgency_score (analyze_query (a @ ins @ b) l'))"
proof (intro conjI impI)
  show "1 \<le> urgency_score (analyze_query q l)"
    unfolding urgency_formula by simp
  show "urgency_score (analyze_query q l) \<le> 10"
    unfolding urgency_formula by simp
  show "urgency_score (analyze_query q l) \<le> urgency_score (analyze_query (pre @ q @ post) l')"
  proof (rule urgency_mono)
    show "any_in panic_indicators (lower q) \<Longrightarrow> any_in panic_indicators (lower (pre @ q @ post))"
      by (simp add: lower_append any_in_context)
    show "any_in urgent_indicators (lower q) \<Longrightarrow> any_in urgent_indicators (lower (pre @ q @ post))"
      by (simp add: lower_append any_in_context)
    show "count_char CHR ''!'' q \<le> count_char CHR ''!'' (pre @ q @ post)"
      by (simp add: count_char_def)
    show "\<And>kw. sublist kw (lower q) \<Longrightarrow> sublist kw (lower (pre @ q @ post))"
      by (simp add: lower_append sublist_in_context)
  qed
next
  assume cut: "splits_no_word a b"
  show "urgency_score (analyze_query (a @ b) l) \<le> urgency_score (analyze_query (a @ ins @ b) l')"
  proof (rule urgency_mono)
    show "any_in panic_indicators (lower (a @ b)) \<Longrightarrow> any_in panic_indicators (lower (a @ ins @ b))"
      using cut by (intro any_in_insert) auto
    show "any_in urgent_indicators (lower (a @ b)) \<Longrightarrow> any_in urgent_indicators (lower (a @ ins @ b))"
      using cut by (intro any_in_insert) auto
    show "count_char CHR ''!'' (a @ b) \<le> count_char CHR ''!'' (a @ ins @ b)"
      by (simp add: count_char_def)
    show "\<And>kw. kw \<in> set DISASTER_KEYWORDS \<Longrightarrow> sublist kw (lower (a @ b))
            \<Longrightarrow> sublist kw (lower (a @ ins @ b))"
      using cut by (intro keyword_insert) auto
  qed
qed

text \<open>The query "flood now" has urgency 6; with "help " put before "now" it has 10.\<close>

theorem urgency_bounds_and_monotone_witness:
  "splits_no_word ''flood '' ''now''
   \<and> urgency_score (analyze_query (''flood '' @ ''now'') None) = 6
   \<and> urgency_score (analyze_query (''flood '' @ ''help '' @ ''now'') None) = 10
   \<and> urgency_score (analyze_query (''flood '' @ ''now'') None)
       \<le> urgency_score (analyze_query (''flood '' @ ''help '' @ ''now'') None)"
proof -
  have h1: "splits_no_word ''flood '' ''now''" by code_simp
  have h2: "urgency_score (analyze_query (''flood '' @ ''now'') None) = 6" by code_simp
  have h3: "urgency_score (analyze_query (''flood '' @ ''help '' @ ''now'') None) = 10"
    by code_simp
  from urgency_bounds_and_monotone [of "''flood '' @ ''now''" None "[]" "[]" None
      "''flood ''" "''now''" "''help ''"] h1
  have "urgency_score (analyze_query (''flood '' @ ''now'') None)
          \<le> urgency_score (analyze_query (''flood '' @ ''help '' @ ''now'') None)"
    by blast
  with h1 h2 h3 show ?thesis by simp
qed

text \<open>
  Text added between two letters can lower the urgency: "help" has urgency 8, and
  with an exclamation mark (an urgent indicator) put after "he" the query "he!lp"
  has urgency 5, since the word "help" is no longer found.
\<close>

theorem urgency_split_word_counterexample:
  "''!'' \<in> set urgent_indicators
   \<and> urgency_score (analyze_query (''he'' @ ''lp'') None) = 8
   \<and> urgency_score (analyze_query (''he'' @ ''!'' @ ''lp'') None) = 5
   \<and> urgency_score (analyze_query (''he'' @ ''!'' @ ''lp'') None)
       < urgency_score (analyze_query (''he'' @ ''lp'') None)"
proof -
  have h1: "''!'' \<in> set urgent_indicators" by code_simp
  have h2: "urgency_score (analyze_query (''he'' @ ''lp'') None) = 8" by code_simp
  have h3: "urgency_score (analyze_query (''he'' @ ''!'' @ ''lp'') None) = 5" by code_simp
  from h1 h2 h3 show ?thesis by simp
qed

end
